theory Spec2Isabelle
  imports Main "HOL-Library.Word" "HOL-Library.Sublist"
begin

section \<open>Errors, strings and formatting\<close>

text \<open>
  A Go \<open>error\<close> is a value carrying a message. \<open>New\<close> is \<open>errors.New\<close>; \<open>Error\<close> reads the
  message back (\<open>err.Error()\<close>). A function of Go type \<open>error\<close> returns \<open>error option\<close>
  (\<open>None\<close> is \<open>nil\<close>); a function returning \<open>(T, error)\<close> returns \<open>error + T\<close>.
\<close>

datatype error = New string

fun Error :: "error \<Rightarrow> string" where
  "Error (New msg) = msg"

type_synonym bytes = "8 word list"

text \<open>\<open>fmt.Sprintf("%v", n)\<close> for an \<open>int\<close>: the decimal digits, with a minus sign below zero.\<close>

definition digit_char :: "nat \<Rightarrow> char" where
  "digit_char d = ''0123456789'' ! d"

function decimal :: "nat \<Rightarrow> string" where
  "decimal n = (if n < 10 then [digit_char n] else decimal (n div 10) @ [digit_char (n mod 10)])"
  by pat_completeness auto
termination
  by (relation "measure id") auto

declare decimal.simps [simp del]

definition Sprint_int :: "int \<Rightarrow> string" where
  "Sprint_int i = (if i < 0 then CHR ''-'' # decimal (nat (- i)) else decimal (nat i))"

text \<open>
  \<open>strings.Split(s, sep)\<close> for a one-byte separator: the pieces between the separators, one more
  than there are separators (so the empty string splits into one empty piece).
\<close>

fun strings_Split :: "string \<Rightarrow> char \<Rightarrow> string list" where
  "strings_Split [] sep = [[]]"
| "strings_Split (c # s) sep =
     (if c = sep then [] # strings_Split s sep
      else (case strings_Split s sep of
              [] \<Rightarrow> [[c]]
            | piece # pieces \<Rightarrow> (c # piece) # pieces))"

text \<open>\<open>strings.Contains(s, substr)\<close>: \<open>substr\<close> occurs in \<open>s\<close> at some position.\<close>

fun strings_Contains :: "string \<Rightarrow> string \<Rightarrow> bool" where
  "strings_Contains [] substr = (substr = [])"
| "strings_Contains (c # s) substr = (prefix substr (c # s) \<or> strings_Contains s substr)"

section \<open>The bearer token of a request (\<open>getAuthToken\<close>)\<close>

text \<open>
  \<open>r.Header.Get(key)\<close> is the empty string when the request has no such header.
\<close>

definition Header_Get :: "(string \<rightharpoonup> string) \<Rightarrow> string \<Rightarrow> string" where
  "Header_Get h key = (case h key of None \<Rightarrow> [] | Some v \<Rightarrow> v)"

definition getAuthToken :: "(string \<rightharpoonup> string) \<Rightarrow> error + string" where
  "getAuthToken header =
     (let tokenHeader = Header_Get header ''Authorization'' in
      if tokenHeader = [] then Inl (New ''no authorization header found'')
      else if (length tokenHeader \<ge> 7 \<and> take 7 tokenHeader \<noteq> ''Bearer '')
              \<or> length (strings_Split tokenHeader CHR '' '') \<noteq> 2
        then Inl (New ''authorization header must be in format 'Bearer' <token>'')
      else Inr (strings_Split tokenHeader CHR '' '' ! 1))"

section \<open>The external auth validator (\<open>ExternalHandler.ValidateToken\<close>)\<close>

text \<open>
  The HTTP client is the handler's \<open>HttpClient\<close> field, of which only \<open>Do\<close> is called: a
  function from the request to a transport error or a response. \<open>http.NewRequest\<close> belongs to
  the standard library and is a parameter \<open>NewRequest\<close> of the model (it fails when the URL does
  not parse); \<open>Header_Add\<close> appends a header to the request it built.
\<close>

record HttpResponse =
  StatusCode :: int

record HttpRequest =
  Method :: string
  URL :: string
  ReqHeader :: "(string \<times> string) list"

record ExternalHandler =
  HttpClient :: "HttpRequest \<Rightarrow> error + HttpResponse"
  LoginServiceURL :: string

definition Header_Add :: "HttpRequest \<Rightarrow> string \<Rightarrow> string \<Rightarrow> HttpRequest" where
  "Header_Add req key v = req\<lparr>ReqHeader := ReqHeader req @ [(key, v)]\<rparr>"

definition login_request ::
  "(string \<Rightarrow> string \<Rightarrow> error + HttpRequest) \<Rightarrow> ExternalHandler \<Rightarrow> error + HttpRequest" where
  "login_request NewRequest e = NewRequest ''POST'' (''http://'' @ LoginServiceURL e @ ''/token'')"

definition ValidateToken ::
  "(string \<Rightarrow> string \<Rightarrow> error + HttpRequest) \<Rightarrow> ExternalHandler \<Rightarrow> string \<Rightarrow> error option" where
  "ValidateToken NewRequest e token =
     (if LoginServiceURL e = [] then Some (New ''login service url cannot be emtpy'')
      else case login_request NewRequest e of
        Inl err \<Rightarrow> Some err
      | Inr req0 \<Rightarrow>
          (let req = Header_Add req0 ''Authorization'' (''Bearer '' @ token) in
           case HttpClient e req of
             Inl err \<Rightarrow> Some err
           | Inr resp \<Rightarrow>
               if StatusCode resp \<noteq> 200
               then Some (New (''non-200 status code received: '' @ Sprint_int (StatusCode resp)))
               else None))"

text \<open>\<open>http.NewRequest\<close> on a URL that parses: the request with that method and URL.\<close>

definition NewRequest_ok :: "string \<Rightarrow> string \<Rightarrow> error + HttpRequest" where
  "NewRequest_ok method url = Inr \<lparr>Method = method, URL = url, ReqHeader = []\<rparr>"

section \<open>Choosing the stream format (\<open>getStream\<close>, \<open>uploadTrackFromYoutubeLink\<close>)\<close>

text \<open>
  Of \<open>youtube.Format\<close> the handlers read the MIME type only. The loop
  \<^verbatim>\<open>formatIndex := 0
  for i, format := range video.Formats {
      if strings.Contains(format.MimeType, "audio/mp4") { formatIndex = i; break }
  }\<close>
  runs over the formats left, with the index \<open>i\<close> of the next one and the current value of
  \<open>formatIndex\<close>. \<open>video.Formats[formatIndex]\<close> panics when the index is out of range, which
  is \<open>None\<close> here.
\<close>

record Format =
  MimeType :: string

fun range_Formats :: "Format list \<Rightarrow> nat \<Rightarrow> nat \<Rightarrow> nat" where
  "range_Formats [] i formatIndex = formatIndex"
| "range_Formats (format # rest) i formatIndex =
     (if strings_Contains (MimeType format) ''audio/mp4'' then i
      else range_Formats rest (Suc i) formatIndex)"

definition formatIndex :: "Format list \<Rightarrow> nat" where
  "formatIndex formats = range_Formats formats 0 0"

definition index :: "'a list \<Rightarrow> nat \<Rightarrow> 'a option" where
  "index xs i = (if i < length xs then Some (xs ! i) else None)"

definition chosen_format :: "Format list \<Rightarrow> Format option" where
  "chosen_format formats = index formats (formatIndex formats)"

section \<open>The data model\<close>

text \<open>
  A \<open>primitive.ObjectID\<close> is twelve bytes; it is modelled by the number they spell, most
  significant byte first. \<open>NilObjectID\<close> is the zero value. \<open>ObjectIDFromHex\<close> accepts exactly
  the strings of 24 hexadecimal digits; of the error for another byte, which in the library
  names the byte, the model keeps the fixed part.
\<close>

type_synonym ObjectID = nat

definition NilObjectID :: ObjectID where
  "NilObjectID = 0"

definition fromHexChar :: "char \<Rightarrow> nat option" where
  "fromHexChar c =
     (if c \<in> set ''0123456789'' then Some (of_char c - 48)
      else if c \<in> set ''abcdef'' then Some (of_char c - 87)
      else if c \<in> set ''ABCDEF'' then Some (of_char c - 55)
      else None)"

fun hex_DecodeString :: "string \<Rightarrow> nat \<Rightarrow> nat option" where
  "hex_DecodeString [] acc = Some acc"
| "hex_DecodeString (c # s) acc =
     (case fromHexChar c of
        None \<Rightarrow> None
      | Some d \<Rightarrow> hex_DecodeString s (16 * acc + d))"

definition ErrInvalidHex :: error where
  "ErrInvalidHex = New ''the provided hex string is not a valid ObjectID''"

definition ObjectIDFromHex :: "string \<Rightarrow> error + ObjectID" where
  "ObjectIDFromHex s =
     (if length s \<noteq> 24 then Inl ErrInvalidHex
      else case hex_DecodeString s 0 of
        None \<Rightarrow> Inl (New ''encoding/hex: invalid byte'')
      | Some oid \<Rightarrow> Inr oid)"

record Track =
  ID :: ObjectID
  Name :: string
  Artist :: string
  AlbumName :: string
  AudioFileID :: ObjectID

record Playlist =
  Playlist_ID :: ObjectID
  Playlist_Name :: string
  Tracks :: "ObjectID list"

text \<open>\<open>models.Track{}\<close>, the zero value.\<close>

definition Track_zero :: Track where
  "Track_zero = \<lparr>ID = NilObjectID, Name = [], Artist = [], AlbumName = [], AudioFileID = NilObjectID\<rparr>"

text \<open>
  The binary store (GridFS) keeps one document per file in \<open>fs.files\<close> and the content, cut
  into chunks that point back to the file, in \<open>fs.chunks\<close>.
\<close>

record File =
  File_ID :: ObjectID
  filename :: string
  fileLength :: nat

record Chunk =
  files_id :: ObjectID
  chunk_n :: nat
  chunk_data :: bytes

record Database =
  songs :: "Track list"
  playlists :: "Playlist list"
  fs_files :: "File list"
  fs_chunks :: "Chunk list"

section \<open>The document store\<close>

text \<open>
  What the storage client asks of the database driver. A collection is the list of its
  documents. Every call of the driver can fail for reasons of its own (the network, the
  server): the context of the request says, for each call the client makes, whether it fails
  and with which error; a failed call leaves the collection as it was. The context also
  holds the ids that \<open>primitive.NewObjectID\<close> draws during the request: the one the handler
  asks for and the one the upload stream gives to a new file. On top of that,
  the single-document calls report \<open>ErrNoDocuments\<close> when nothing matches, and an insert
  reports a duplicate key when the collection already has a document with that \<open>_id\<close> (the
  driver wraps the server's message in a write exception; the model keeps the message).
\<close>

datatype call =
    TrackFind | TrackCursorAll | TrackInsertOne | TrackFindOne | TrackDecode
  | TrackFindOneAndUpdate | TrackFindOneAndDelete | AudioDeleteOne | ChunkDeleteMany
  | PlaylistUpdateMany | PlaylistInsertOne | PlaylistFindOneAndUpdate | PlaylistDeleteOne
  | PlaylistFind | PlaylistCursorAll | NewBucket | OpenUploadStream | StreamWrite
  | StreamClose | DownloadToStream | ClientPing | ResponseCopy

record Context =
  Fault :: "call \<Rightarrow> error option"
  NewObjectID :: ObjectID
  NewFileID :: ObjectID

definition ErrNoDocuments :: error where
  "ErrNoDocuments = New ''mongo: no documents in result''"

definition ErrDuplicateKey :: error where
  "ErrDuplicateKey = New ''E11000 duplicate key error''"

definition ErrFileNotFound :: error where
  "ErrFileNotFound = New ''file with given parameters not found''"

definition Find :: "error option \<Rightarrow> ('d \<Rightarrow> bool) \<Rightarrow> 'd list \<Rightarrow> error + 'd list" where
  "Find fault matches docs =
     (case fault of Some err \<Rightarrow> Inl err | None \<Rightarrow> Inr (filter matches docs))"

definition FindOne :: "error option \<Rightarrow> ('d \<Rightarrow> bool) \<Rightarrow> 'd list \<Rightarrow> error + 'd" where
  "FindOne fault matches docs =
     (case fault of
        Some err \<Rightarrow> Inl err
      | None \<Rightarrow> (case find matches docs of None \<Rightarrow> Inl ErrNoDocuments | Some d \<Rightarrow> Inr d))"

definition InsertOne ::
  "error option \<Rightarrow> ('d \<Rightarrow> ObjectID) \<Rightarrow> 'd \<Rightarrow> 'd list \<Rightarrow> (error + ObjectID option) \<times> 'd list" where
  "InsertOne fault key d docs =
     (case fault of
        Some err \<Rightarrow> (Inl err, docs)
      | None \<Rightarrow>
          if key d \<in> set (map key docs) then (Inl ErrDuplicateKey, docs)
          else (Inr (Some (key d)), docs @ [d]))"

fun delete_first :: "('d \<Rightarrow> bool) \<Rightarrow> 'd list \<Rightarrow> 'd list" where
  "delete_first matches [] = []"
| "delete_first matches (d # docs) =
     (if matches d then docs else d # delete_first matches docs)"

fun update_first :: "('d \<Rightarrow> bool) \<Rightarrow> ('d \<Rightarrow> 'd) \<Rightarrow> 'd list \<Rightarrow> 'd list" where
  "update_first matches upd [] = []"
| "update_first matches upd (d # docs) =
     (if matches d then upd d # docs else d # update_first matches upd docs)"

definition FindOneAndDelete ::
  "error option \<Rightarrow> ('d \<Rightarrow> bool) \<Rightarrow> 'd list \<Rightarrow> (error + 'd) \<times> 'd list" where
  "FindOneAndDelete fault matches docs =
     (case fault of
        Some err \<Rightarrow> (Inl err, docs)
      | None \<Rightarrow>
          (case find matches docs of
             None \<Rightarrow> (Inl ErrNoDocuments, docs)
           | Some d \<Rightarrow> (Inr d, delete_first matches docs)))"

definition FindOneAndUpdate ::
  "error option \<Rightarrow> ('d \<Rightarrow> bool) \<Rightarrow> ('d \<Rightarrow> 'd) \<Rightarrow> 'd list \<Rightarrow> (error + 'd) \<times> 'd list" where
  "FindOneAndUpdate fault matches upd docs =
     (case fault of
        Some err \<Rightarrow> (Inl err, docs)
      | None \<Rightarrow>
          (case find matches docs of
             None \<Rightarrow> (Inl ErrNoDocuments, docs)
           | Some d \<Rightarrow> (Inr d, update_first matches upd docs)))"

text \<open>\<open>DeleteOne\<close> and \<open>DeleteMany\<close> return the number of documents they deleted.\<close>

definition DeleteOne ::
  "error option \<Rightarrow> ('d \<Rightarrow> bool) \<Rightarrow> 'd list \<Rightarrow> (error + nat) \<times> 'd list" where
  "DeleteOne fault matches docs =
     (case fault of
        Some err \<Rightarrow> (Inl err, docs)
      | None \<Rightarrow>
          (case find matches docs of
             None \<Rightarrow> (Inr 0, docs)
           | Some d \<Rightarrow> (Inr 1, delete_first matches docs)))"

definition DeleteMany ::
  "error option \<Rightarrow> ('d \<Rightarrow> bool) \<Rightarrow> 'd list \<Rightarrow> (error + nat) \<times> 'd list" where
  "DeleteMany fault matches docs =
     (case fault of
        Some err \<Rightarrow> (Inl err, docs)
      | None \<Rightarrow> (Inr (length (filter matches docs)), filter (\<lambda>d. \<not> matches d) docs))"

definition UpdateMany ::
  "error option \<Rightarrow> ('d \<Rightarrow> bool) \<Rightarrow> ('d \<Rightarrow> 'd) \<Rightarrow> 'd list \<Rightarrow> (error + nat) \<times> 'd list" where
  "UpdateMany fault matches upd docs =
     (case fault of
        Some err \<Rightarrow> (Inl err, docs)
      | None \<Rightarrow>
          (Inr (length (filter matches docs)), map (\<lambda>d. if matches d then upd d else d) docs))"

subsection \<open>Filters and updates\<close>

text \<open>
  A filter is a list of field names with the values asked for; a document matches when each
  named field holds that value (for the array \<open>tracks\<close>: holds it as an element). The fields
  are those of the \<open>bson\<close> tags; a field tagged \<open>omitempty\<close> is absent from the document when it
  holds the zero value.
\<close>

datatype bson_value = OID ObjectID | Str string

type_synonym filter = "(string \<times> bson_value) list"

definition track_field :: "Track \<Rightarrow> string \<Rightarrow> bson_value option" where
  "track_field t k =
     (if k = ''_id'' then Some (OID (ID t))
      else if k = ''name'' \<and> Name t \<noteq> [] then Some (Str (Name t))
      else if k = ''artist'' \<and> Artist t \<noteq> [] then Some (Str (Artist t))
      else if k = ''album'' \<and> AlbumName t \<noteq> [] then Some (Str (AlbumName t))
      else if k = ''audioFile'' \<and> AudioFileID t \<noteq> NilObjectID then Some (OID (AudioFileID t))
      else None)"

definition track_matches :: "filter \<Rightarrow> Track \<Rightarrow> bool" where
  "track_matches filters t = list_all (\<lambda>(k, v). track_field t k = Some v) filters"

definition playlist_field_holds :: "Playlist \<Rightarrow> string \<Rightarrow> bson_value \<Rightarrow> bool" where
  "playlist_field_holds p k v =
     (if k = ''_id'' then v = OID (Playlist_ID p)
      else if k = ''name'' then v = Str (Playlist_Name p)
      else if k = ''tracks'' then v \<in> set (map OID (Tracks p))
      else False)"

definition playlist_matches :: "filter \<Rightarrow> Playlist \<Rightarrow> bool" where
  "playlist_matches filters p = list_all (\<lambda>(k, v). playlist_field_holds p k v) filters"

definition file_matches :: "filter \<Rightarrow> File \<Rightarrow> bool" where
  "file_matches filters f = list_all (\<lambda>(k, v). k = ''_id'' \<and> v = OID (File_ID f)) filters"

definition chunk_matches :: "filter \<Rightarrow> Chunk \<Rightarrow> bool" where
  "chunk_matches filters c = list_all (\<lambda>(k, v). k = ''files_id'' \<and> v = OID (files_id c)) filters"

text \<open>
  The updates the client sends: \<open>{"$push": {"tracks": id}}\<close> appends to the array,
  \<open>{"$pull": {"tracks": id}}\<close> removes every occurrence from it, and \<open>{"$set": track}\<close> writes
  the fields present in the encoded track.
\<close>

datatype update = Push_tracks ObjectID | Pull_tracks ObjectID

fun apply_update :: "update \<Rightarrow> Playlist \<Rightarrow> Playlist" where
  "apply_update (Push_tracks t) p = p\<lparr>Tracks := Tracks p @ [t]\<rparr>"
| "apply_update (Pull_tracks t) p = p\<lparr>Tracks := removeAll t (Tracks p)\<rparr>"

definition set_track :: "Track \<Rightarrow> Track \<Rightarrow> Track" where
  "set_track track doc =
     \<lparr>ID = ID track,
      Name = (if Name track = [] then Name doc else Name track),
      Artist = (if Artist track = [] then Artist doc else Artist track),
      AlbumName = (if AlbumName track = [] then AlbumName doc else AlbumName track),
      AudioFileID = (if AudioFileID track = NilObjectID then AudioFileID doc else AudioFileID track)\<rparr>"

section \<open>The storage client (\<open>MongoClient\<close>)\<close>

text \<open>
  The handlers reach the storage client through the interface \<open>dao.DbHandler\<close>;
  \<open>MongoClient\<close> is its implementation. Each method takes the context of the request and the
  database, and returns its result with the database it leaves. The methods that only read
  return their result alone. The parameter \<open>id\<close> of the source is \<open>oid\<close> here.
\<close>

definition GetTracks :: "Context \<Rightarrow> filter \<Rightarrow> Database \<Rightarrow> error + Track list" where
  "GetTracks ctx filters db =
     (case Find (Fault ctx TrackFind) (track_matches filters) (songs db) of
        Inl err \<Rightarrow> Inl err
      | Inr cursor \<Rightarrow>
          (case Fault ctx TrackCursorAll of
             Some err \<Rightarrow> Inl err
           | None \<Rightarrow> Inr cursor))"

text \<open>
  The upload stream of the bucket: \<open>OpenUploadStream\<close> draws the id of the new file, \<open>Write\<close>
  hands the bytes to the stream, and \<open>Close\<close>, which \<open>UploadAudioFile\<close> defers, stores the
  chunks and then the file document. An error of \<open>Close\<close> is logged and not returned: when
  the call fails nothing is stored, and when the file id is already taken the chunks are
  stored and the file document is not. A \<open>Write\<close> that fails has taken nothing. The file id comes back as an \<open>interface{}\<close> value.
\<close>

definition DefaultChunkSize :: nat where
  "DefaultChunkSize = 255 * 1024"

function chunks_of :: "nat \<Rightarrow> 'a list \<Rightarrow> 'a list list" where
  "chunks_of n xs =
     (if xs = [] then []
      else if n = 0 \<or> length xs \<le> n then [xs]
      else take n xs # chunks_of n (drop n xs))"
  by pat_completeness auto
termination
  by (relation "measure (\<lambda>(n, xs). length xs)") auto

declare chunks_of.simps [simp del]

datatype any = AnObjectID ObjectID | NotAnObjectID

definition stream_Close :: "Context \<Rightarrow> ObjectID \<Rightarrow> string \<Rightarrow> bytes \<Rightarrow> Database \<Rightarrow> Database" where
  "stream_Close ctx FileID name buffer db =
     (case Fault ctx StreamClose of
        Some err \<Rightarrow> db
      | None \<Rightarrow>
          (let db1 = db\<lparr>fs_chunks := fs_chunks db @
                 map (\<lambda>(n, d). \<lparr>files_id = FileID, chunk_n = n, chunk_data = d\<rparr>)
                   (enumerate 0 (chunks_of DefaultChunkSize buffer))\<rparr>
           in if FileID \<in> set (map File_ID (fs_files db)) then db1
              else db1\<lparr>fs_files := fs_files db @
                     [\<lparr>File_ID = FileID, filename = name, fileLength = length buffer\<rparr>]\<rparr>))"

definition UploadAudioFile ::
  "Context \<Rightarrow> bytes \<Rightarrow> string \<Rightarrow> Database \<Rightarrow> (error + any) \<times> Database" where
  "UploadAudioFile ctx audioFile trackName db =
     (case Fault ctx NewBucket of
        Some err \<Rightarrow> (Inl err, db)
      | None \<Rightarrow>
          (case Fault ctx OpenUploadStream of
             Some err \<Rightarrow> (Inl err, db)
           | None \<Rightarrow>
               (let FileID = NewFileID ctx in
                case Fault ctx StreamWrite of
                  Some err \<Rightarrow> (Inl err, stream_Close ctx FileID trackName [] db)
                | None \<Rightarrow>
                    (Inr (AnObjectID FileID), stream_Close ctx FileID trackName audioFile db))))"

definition AddTrack :: "Context \<Rightarrow> Track \<Rightarrow> Database \<Rightarrow> error option \<times> Database" where
  "AddTrack ctx track db =
     (case InsertOne (Fault ctx TrackInsertOne) ID track (songs db) of
        (Inl err, docs) \<Rightarrow> (Some err, db)
      | (Inr InsertedID, docs) \<Rightarrow>
          if InsertedID = None then (Some (New ''no tracks inserted''), db\<lparr>songs := docs\<rparr>)
          else (None, db\<lparr>songs := docs\<rparr>))"

text \<open>
  \<open>DownloadToStream\<close> gives the chunks of the file in the order of their numbers. The checks
  the driver makes of the numbers and sizes of the chunks against the file document are not
  modelled: the store only holds what \<open>UploadAudioFile\<close> wrote.
\<close>

definition DownloadAudioFile :: "Context \<Rightarrow> ObjectID \<Rightarrow> Database \<Rightarrow> error + bytes" where
  "DownloadAudioFile ctx audioFileID db =
     (case Fault ctx NewBucket of
        Some err \<Rightarrow> Inl err
      | None \<Rightarrow>
          (case Fault ctx DownloadToStream of
             Some err \<Rightarrow> Inl err
           | None \<Rightarrow>
               (case find (\<lambda>f. File_ID f = audioFileID) (fs_files db) of
                  None \<Rightarrow> Inl ErrFileNotFound
                | Some f \<Rightarrow>
                    Inr (concat (map chunk_data
                      (sort_key chunk_n (filter (\<lambda>c. files_id c = audioFileID) (fs_chunks db))))))))"

definition UpdateTrack ::
  "Context \<Rightarrow> ObjectID \<Rightarrow> Track \<Rightarrow> Database \<Rightarrow> error option \<times> Database" where
  "UpdateTrack ctx oid updatedTrack db =
     (let filter = [(''_id'', OID oid)] in
      case FindOne (Fault ctx TrackFindOne) (track_matches filter) (songs db) of
        Inl err \<Rightarrow> (Some err, db)
      | Inr findResult \<Rightarrow>
          (case Fault ctx TrackDecode of
             Some err \<Rightarrow> (Some err, db)
           | None \<Rightarrow>
               (let track = findResult;
                    track = (if Name updatedTrack \<noteq> [] then track\<lparr>Name := Name updatedTrack\<rparr> else track);
                    track = (if Artist updatedTrack \<noteq> [] then track\<lparr>Artist := Artist updatedTrack\<rparr> else track);
                    track = (if AlbumName updatedTrack \<noteq> []
                             then track\<lparr>AlbumName := AlbumName updatedTrack\<rparr> else track)
                in case FindOneAndUpdate (Fault ctx TrackFindOneAndUpdate) (track_matches filter)
                          (set_track track) (songs db) of
                     (Inl err, docs) \<Rightarrow> (Some err, db)
                   | (Inr updateResult, docs) \<Rightarrow> (None, db\<lparr>songs := docs\<rparr>))))"

definition DeleteTrack :: "Context \<Rightarrow> ObjectID \<Rightarrow> Database \<Rightarrow> error option \<times> Database" where
  "DeleteTrack ctx oid db =
     (let filter = [(''_id'', OID oid)] in
      case FindOneAndDelete (Fault ctx TrackFindOneAndDelete) (track_matches filter) (songs db) of
        (Inl err, docs) \<Rightarrow> (Some err, db)
      | (Inr result, docs) \<Rightarrow>
          (let db1 = db\<lparr>songs := docs\<rparr> in
           case Fault ctx TrackDecode of
             Some err \<Rightarrow> (Some err, db1)
           | None \<Rightarrow>
               (let track = result in
                case DeleteOne (Fault ctx AudioDeleteOne)
                       (file_matches [(''_id'', OID (AudioFileID track))]) (fs_files db1) of
                  (Inl err, files) \<Rightarrow> (Some err, db1)
                | (Inr deleted, files) \<Rightarrow>
                    (let db2 = db1\<lparr>fs_files := files\<rparr> in
                     case DeleteMany (Fault ctx ChunkDeleteMany)
                            (chunk_matches [(''files_id'', OID (AudioFileID track))]) (fs_chunks db2) of
                       (Inl err, chunks) \<Rightarrow> (Some err, db2)
                     | (Inr deleted, chunks) \<Rightarrow>
                         (let db3 = db2\<lparr>fs_chunks := chunks\<rparr>;
                              (err, lists) = UpdateMany (Fault ctx PlaylistUpdateMany)
                                 (playlist_matches [(''tracks'', OID (ID track))])
                                 (apply_update (Pull_tracks (ID track))) (playlists db3)
                          in (None, db3\<lparr>playlists := lists\<rparr>))))))"

definition AddPlaylist :: "Context \<Rightarrow> Playlist \<Rightarrow> Database \<Rightarrow> error option \<times> Database" where
  "AddPlaylist ctx playlist db =
     (case InsertOne (Fault ctx PlaylistInsertOne) Playlist_ID playlist (playlists db) of
        (Inl err, docs) \<Rightarrow> (Some err, db)
      | (Inr InsertedID, docs) \<Rightarrow>
          if InsertedID = None then (Some (New ''no playlist inserted''), db\<lparr>playlists := docs\<rparr>)
          else (None, db\<lparr>playlists := docs\<rparr>))"

definition UpdatePlaylist ::
  "Context \<Rightarrow> ObjectID \<Rightarrow> update \<Rightarrow> Database \<Rightarrow> error option \<times> Database" where
  "UpdatePlaylist ctx playlistId upd db =
     (case FindOneAndUpdate (Fault ctx PlaylistFindOneAndUpdate)
             (playlist_matches [(''_id'', OID playlistId)]) (apply_update upd) (playlists db) of
        (Inl err, docs) \<Rightarrow> (Some err, db)
      | (Inr results, docs) \<Rightarrow> (None, db\<lparr>playlists := docs\<rparr>))"

definition DeletePlaylist :: "Context \<Rightarrow> ObjectID \<Rightarrow> Database \<Rightarrow> error option \<times> Database" where
  "DeletePlaylist ctx oid db =
     (case DeleteOne (Fault ctx PlaylistDeleteOne) (playlist_matches [(''_id'', OID oid)])
             (playlists db) of
        (Inl err, docs) \<Rightarrow> (Some err, db)
      | (Inr DeletedCount, docs) \<Rightarrow>
          if DeletedCount = 0 then (Some (New ''no documents were deleted''), db\<lparr>playlists := docs\<rparr>)
          else (None, db\<lparr>playlists := docs\<rparr>))"

definition GetPlaylists :: "Context \<Rightarrow> filter \<Rightarrow> Database \<Rightarrow> error + Playlist list" where
  "GetPlaylists ctx filters db =
     (case Find (Fault ctx PlaylistFind) (playlist_matches filters) (playlists db) of
        Inl err \<Rightarrow> Inl err
      | Inr cursor \<Rightarrow>
          (case Fault ctx PlaylistCursorAll of
             Some err \<Rightarrow> Inl err
           | None \<Rightarrow> Inr cursor))"

definition Ping :: "Context \<Rightarrow> error option" where
  "Ping ctx = Fault ctx ClientPing"

section \<open>The HTTP layer\<close>

subsection \<open>Requests and responses\<close>

text \<open>
  Of a request the handlers read the headers, the variables of the route (\<open>mux.Vars\<close>), the
  multipart form and the body. A body that holds the JSON of a track is given by what
  \<open>encoding/json\<close> makes of it: malformed JSON is a syntax error, found before anything is
  stored in the target; well-formed JSON of the wrong shape is an error with the target filled
  as far as the fields went; anything else is the decoded value.
\<close>

datatype 'a json = SyntaxError error | UnmarshalTypeError error 'a | Value 'a

fun json_Unmarshal :: "'a json \<Rightarrow> 'a \<Rightarrow> error option \<times> 'a" where
  "json_Unmarshal (SyntaxError err) v = (Some err, v)"
| "json_Unmarshal (UnmarshalTypeError err v') v = (Some err, v')"
| "json_Unmarshal (Value v') v = (None, v')"

record Request =
  Header :: "string \<rightharpoonup> string"
  Vars :: "string \<rightharpoonup> string"
  ParseForm :: "error option"
  FormFile :: "string \<rightharpoonup> error + bytes"
  FormValue_body :: "Track json"
  Body :: "Track json"

definition Vars_get :: "(string \<rightharpoonup> string) \<Rightarrow> string \<Rightarrow> string" where
  "Vars_get vars key = (case vars key of None \<Rightarrow> [] | Some v \<Rightarrow> v)"

definition ErrMissingFile :: error where
  "ErrMissingFile = New ''http: no such file''"

text \<open>
  A response writer keeps the status of the first \<open>WriteHeader\<close> (a later one is ignored) and
  what has been written to the body. Writing to the body before any \<open>WriteHeader\<close> sets the
  status 200.
\<close>

datatype body =
    Message string | ErrorObject string | TrackList "Track list"
  | PlaylistList "Playlist list" | Bytes bytes

record ResponseWriter =
  status :: "nat option"
  written :: "body list"

definition NewRecorder :: ResponseWriter where
  "NewRecorder = \<lparr>status = None, written = []\<rparr>"

abbreviation StatusOK :: nat where "StatusOK \<equiv> 200"
abbreviation StatusBadRequest :: nat where "StatusBadRequest \<equiv> 400"
abbreviation StatusUnauthorized :: nat where "StatusUnauthorized \<equiv> 401"
abbreviation StatusInternalServerError :: nat where "StatusInternalServerError \<equiv> 500"

definition WriteHeader :: "ResponseWriter \<Rightarrow> nat \<Rightarrow> ResponseWriter" where
  "WriteHeader w code = (case status w of None \<Rightarrow> w\<lparr>status := Some code\<rparr> | Some c \<Rightarrow> w)"

definition Write :: "ResponseWriter \<Rightarrow> body \<Rightarrow> ResponseWriter" where
  "Write w b = (let w' = WriteHeader w StatusOK in w'\<lparr>written := written w' @ [b]\<rparr>)"

definition respondWithSuccess :: "ResponseWriter \<Rightarrow> nat \<Rightarrow> body option \<Rightarrow> ResponseWriter" where
  "respondWithSuccess w code b =
     (let w' = WriteHeader w code in
      case b of None \<Rightarrow> w' | Some payload \<Rightarrow> Write w' payload)"

definition respondWithError :: "ResponseWriter \<Rightarrow> nat \<Rightarrow> string \<Rightarrow> ResponseWriter" where
  "respondWithError w code message =
     (let w' = WriteHeader w code in
      if message = [] then w' else Write w' (ErrorObject message))"

text \<open>
  A handler either returns, leaving the response it wrote, or panics (the server then drops
  the connection). Either way it leaves a database.
\<close>

datatype result = Responded ResponseWriter | Panicked string

subsection \<open>Authentication\<close>

text \<open>
  Every handler but the health check begins with the same two steps: read the token
  (\<open>getAuthToken\<close>, 400 when that fails) and validate it (\<open>ext.ValidateToken\<close>, 401 when that
  fails). \<open>ext\<close> is the \<open>ValidateToken\<close> method of the handler's \<open>service.ExtHandler\<close>. The steps
  give the response on failure and the token otherwise.
\<close>

definition authenticate ::
  "(string \<Rightarrow> error option) \<Rightarrow> Request \<Rightarrow> ResponseWriter \<Rightarrow> ResponseWriter + string" where
  "authenticate ext r w =
     (case getAuthToken (Header r) of
        Inl err \<Rightarrow> Inl (respondWithError w StatusBadRequest (Error err))
      | Inr token \<Rightarrow>
          (case ext token of
             Some err \<Rightarrow> Inl (respondWithError w StatusUnauthorized ''Authentication failed'')
           | None \<Rightarrow> Inr token))"

subsection \<open>The track handlers\<close>

text \<open>The defaults \<open>uploadTrack\<close> and \<open>updateTrack\<close> put in place of empty fields.\<close>

definition with_defaults :: "Track \<Rightarrow> Track" where
  "with_defaults track =
     (let track = (if Name track = [] then track\<lparr>Name := ''Unknown''\<rparr> else track);
          track = (if Artist track = [] then track\<lparr>Artist := ''Unknown Artist''\<rparr> else track);
          track = (if AlbumName track = [] then track\<lparr>AlbumName := ''Unknown Album''\<rparr> else track)
      in track)"

text \<open>
  \<open>uploadTrack\<close>. A body that fails to decode is answered with 400, and the handler goes on
  (there is no \<open>return\<close> in that branch).
\<close>

definition uploadTrack ::
  "Context \<Rightarrow> (string \<Rightarrow> error option) \<Rightarrow> Request \<Rightarrow> Database \<Rightarrow> result \<times> Database" where
  "uploadTrack ctx ext r db =
     (let w = NewRecorder in
      case authenticate ext r w of
        Inl w' \<Rightarrow> (Responded w', db)
      | Inr token \<Rightarrow>
      (case ParseForm r of
        Some err \<Rightarrow> (Responded (respondWithError w StatusBadRequest (Error err)), db)
      | None \<Rightarrow>
      (case FormFile r ''input'' of
        None \<Rightarrow> (Responded (respondWithError w StatusBadRequest (Error ErrMissingFile)), db)
      | Some (Inl err) \<Rightarrow> (Responded (respondWithError w StatusInternalServerError (Error err)), db)
      | Some (Inr buf) \<Rightarrow>
          (let (err, track) = json_Unmarshal (FormValue_body r) Track_zero;
               w = (case err of
                      Some e \<Rightarrow> respondWithError w StatusBadRequest (Error e)
                    | None \<Rightarrow> w);
               track = track\<lparr>ID := NewObjectID ctx\<rparr>;
               track = with_defaults track
           in case UploadAudioFile ctx buf (Name track) db of
                (Inl err, db') \<Rightarrow>
                  (Responded (respondWithError w StatusInternalServerError (Error err)), db')
              | (Inr NotAnObjectID, db') \<Rightarrow>
                  (Responded (respondWithError w StatusInternalServerError
                     ''invalid audioID received from handler''), db')
              | (Inr (AnObjectID audioID), db') \<Rightarrow>
                  (let track = track\<lparr>AudioFileID := audioID\<rparr> in
                   case AddTrack ctx track db' of
                     (Some err, db'') \<Rightarrow>
                       (Responded (respondWithError w StatusInternalServerError (Error err)), db'')
                   | (None, db'') \<Rightarrow>
                       (Responded (respondWithSuccess w StatusOK
                          (Some (Message ''Track added successfully''))), db''))))))"

text \<open>
  \<open>getTrackAudio\<close>. \<open>tracks[0]\<close> is read with no check of the length: on an empty result the
  handler panics. The copy of the audio into the response is a call that can fail as well
  (\<open>ResponseCopy\<close>).
\<close>

definition getTrackAudio ::
  "Context \<Rightarrow> (string \<Rightarrow> error option) \<Rightarrow> Request \<Rightarrow> Database \<Rightarrow> result \<times> Database" where
  "getTrackAudio ctx ext r db =
     (let w = NewRecorder; id_var = Vars_get (Vars r) ''id'' in
      case authenticate ext r w of
        Inl w' \<Rightarrow> (Responded w', db)
      | Inr token \<Rightarrow>
      (case ObjectIDFromHex id_var of
        Inl err \<Rightarrow> (Responded (respondWithError w StatusBadRequest (Error err)), db)
      | Inr objectID \<Rightarrow>
      (case GetTracks ctx [(''_id'', OID objectID)] db of
        Inl err \<Rightarrow> (Responded (respondWithError w StatusInternalServerError (Error err)), db)
      | Inr tracks \<Rightarrow>
      (case index tracks 0 of
        None \<Rightarrow> (Panicked ''runtime error: index out of range [0] with length 0'', db)
      | Some track0 \<Rightarrow>
      (case DownloadAudioFile ctx (AudioFileID track0) db of
        Inl err \<Rightarrow> (Responded (respondWithError w StatusInternalServerError (Error err)), db)
      | Inr audioFileBytes \<Rightarrow>
      (case Fault ctx ResponseCopy of
        Some err \<Rightarrow> (Responded (respondWithError w StatusInternalServerError (Error err)), db)
      | None \<Rightarrow> (Responded (Write w (Bytes audioFileBytes)), db)))))))"

text \<open>
  \<open>updateTrack\<close>, as the authenticated API has it: the empty fields of the decoded body are
  replaced by the defaults before the storage client is called.
\<close>

definition updateTrack ::
  "Context \<Rightarrow> (string \<Rightarrow> error option) \<Rightarrow> Request \<Rightarrow> Database \<Rightarrow> result \<times> Database" where
  "updateTrack ctx ext r db =
     (let w = NewRecorder in
      case authenticate ext r w of
        Inl w' \<Rightarrow> (Responded w', db)
      | Inr token \<Rightarrow>
      (case ObjectIDFromHex (Vars_get (Vars r) ''id'') of
        Inl err \<Rightarrow> (Responded (respondWithError w StatusBadRequest (Error err)), db)
      | Inr oid \<Rightarrow>
      (case json_Unmarshal (Body r) Track_zero of
        (Some err, updatedTrack) \<Rightarrow>
          (Responded (respondWithError w StatusBadRequest (Error err)), db)
      | (None, updatedTrack) \<Rightarrow>
          (let updatedTrack = with_defaults updatedTrack in
           case UpdateTrack ctx oid updatedTrack db of
             (Some err, db') \<Rightarrow>
               (Responded (respondWithError w StatusInternalServerError (Error err)), db')
           | (None, db') \<Rightarrow>
               (Responded (respondWithSuccess w StatusOK
                  (Some (Message ''Track updated successfully''))), db')))))"

text \<open>
  \<open>updateTrack\<close> of \<open>pkg/api/api.go\<close>: no authentication, and the decoded body goes to the
  storage client as it is.
\<close>

definition updateTrack_api :: "Context \<Rightarrow> Request \<Rightarrow> Database \<Rightarrow> result \<times> Database" where
  "updateTrack_api ctx r db =
     (let w = NewRecorder in
      case ObjectIDFromHex (Vars_get (Vars r) ''id'') of
        Inl err \<Rightarrow> (Responded (respondWithError w StatusBadRequest (Error err)), db)
      | Inr oid \<Rightarrow>
      (case json_Unmarshal (Body r) Track_zero of
        (Some err, updatedTrack) \<Rightarrow>
          (Responded (respondWithError w StatusBadRequest (Error err)), db)
      | (None, updatedTrack) \<Rightarrow>
          (case UpdateTrack ctx oid updatedTrack db of
             (Some err, db') \<Rightarrow>
               (Responded (respondWithError w StatusInternalServerError (Error err)), db')
           | (None, db') \<Rightarrow>
               (Responded (respondWithSuccess w StatusOK
                  (Some (Message ''Track updated successfully''))), db'))))"

definition deleteTrack ::
  "Context \<Rightarrow> (string \<Rightarrow> error option) \<Rightarrow> Request \<Rightarrow> Database \<Rightarrow> result \<times> Database" where
  "deleteTrack ctx ext r db =
     (let w = NewRecorder in
      case authenticate ext r w of
        Inl w' \<Rightarrow> (Responded w', db)
      | Inr token \<Rightarrow>
      (case ObjectIDFromHex (Vars_get (Vars r) ''id'') of
        Inl err \<Rightarrow> (Responded (respondWithError w StatusBadRequest (Error err)), db)
      | Inr oid \<Rightarrow>
      (case DeleteTrack ctx oid db of
        (Some err, db') \<Rightarrow>
          (Responded (respondWithError w StatusInternalServerError (Error err)), db')
      | (None, db') \<Rightarrow>
          (Responded (respondWithSuccess w StatusOK
             (Some (Message ''Track deleted successfully''))), db'))))"

subsection \<open>The playlist handlers\<close>

text \<open>
  \<open>addTrackToPlaylist\<close> asks for the tracks with the given id and drops the list it gets
  (\<open>_, err = handler.GetTracks(...)\<close>): only the error is looked at.
\<close>

definition addTrackToPlaylist ::
  "Context \<Rightarrow> (string \<Rightarrow> error option) \<Rightarrow> Request \<Rightarrow> Database \<Rightarrow> result \<times> Database" where
  "addTrackToPlaylist ctx ext r db =
     (let w = NewRecorder in
      case authenticate ext r w of
        Inl w' \<Rightarrow> (Responded w', db)
      | Inr token \<Rightarrow>
      (let playlistId = Vars_get (Vars r) ''playlistid'';
           trackId = Vars_get (Vars r) ''trackid''
       in
       case ObjectIDFromHex playlistId of
        Inl err \<Rightarrow> (Responded (respondWithError w StatusBadRequest (Error err)), db)
      | Inr pid \<Rightarrow>
      (case ObjectIDFromHex trackId of
        Inl err \<Rightarrow> (Responded (respondWithError w StatusBadRequest (Error err)), db)
      | Inr tid \<Rightarrow>
      (case GetTracks ctx [(''_id'', OID tid)] db of
        Inl err \<Rightarrow> (Responded (respondWithError w StatusInternalServerError (Error err)), db)
      | Inr tracks \<Rightarrow>
      (case UpdatePlaylist ctx pid (Push_tracks tid) db of
        (Some err, db') \<Rightarrow>
          (Responded (respondWithError w StatusInternalServerError (Error err)), db')
      | (None, db') \<Rightarrow>
          (Responded (respondWithSuccess w StatusOK
             (Some (Message ''Track successfully added to playlist''))), db'))))))"

section \<open>Example data\<close>

text \<open>
  A store with one track, its audio file in one chunk, and one playlist that lists the track
  twice; requests that carry a well-formed bearer token; a context in which no call of the
  driver fails, and one in which the playlist clean-up of \<open>DeleteTrack\<close> does.
\<close>

definition ctx_ok :: Context where
  "ctx_ok = \<lparr>Fault = (\<lambda>c. None), NewObjectID = 7, NewFileID = 8\<rparr>"

definition ctx_cleanup_fails :: Context where
  "ctx_cleanup_fails =
     \<lparr>Fault = (\<lambda>c. if c = PlaylistUpdateMany then Some (New ''connection reset'') else None),
      NewObjectID = 7, NewFileID = 8\<rparr>"

definition song4 :: Track where
  "song4 = \<lparr>ID = 4, Name = ''Song'', Artist = ''Band'', AlbumName = ''Album'', AudioFileID = 5\<rparr>"

definition example_db :: Database where
  "example_db =
     \<lparr>songs = [song4],
      playlists = [\<lparr>Playlist_ID = 2, Playlist_Name = ''Mix'', Tracks = [4, 3, 4]\<rparr>],
      fs_files = [\<lparr>File_ID = 5, filename = ''Song'', fileLength = 2\<rparr>],
      fs_chunks = [\<lparr>files_id = 5, chunk_n = 0, chunk_data = [1, 2]\<rparr>]\<rparr>"

definition example_request :: Request where
  "example_request =
     \<lparr>Header = [''Authorization'' \<mapsto> ''Bearer test''],
      Vars = [''playlistid'' \<mapsto> ''000000000000000000000002'',
              ''trackid'' \<mapsto> ''000000000000000000000009'',
              ''id'' \<mapsto> ''000000000000000000000009''],
      ParseForm = None,
      FormFile = [''input'' \<mapsto> Inr [1, 2, 3]],
      FormValue_body = SyntaxError (New ''unexpected end of JSON input''),
      Body = Value (Track_zero\<lparr>Name := ''New''\<rparr>)\<rparr>"

definition update_request :: Request where
  "update_request =
     \<lparr>Header = [''Authorization'' \<mapsto> ''Bearer test''],
      Vars = [''id'' \<mapsto> ''000000000000000000000004''],
      ParseForm = None,
      FormFile = Map.empty,
      FormValue_body = Value Track_zero,
      Body = Value (Track_zero\<lparr>Name := ''New''\<rparr>)\<rparr>"

definition upload_request :: Request where
  "upload_request =
     \<lparr>Header = [''Authorization'' \<mapsto> ''Bearer test''],
      Vars = Map.empty,
      ParseForm = None,
      FormFile = [''input'' \<mapsto> Inr [1, 2, 3]],
      FormValue_body = Value (Track_zero\<lparr>Artist := ''Band''\<rparr>),
      Body = SyntaxError (New ''EOF'')\<rparr>"

definition short_header_request :: Request where
  "short_header_request =
     \<lparr>Header = [''Authorization'' \<mapsto> ''a b''],
      Vars = Map.empty,
      ParseForm = None,
      FormFile = Map.empty,
      FormValue_body = Value Track_zero,
      Body = Value Track_zero\<rparr>"

definition example_formats :: "Format list" where
  "example_formats =
     [\<lparr>MimeType = ''video/mp4''\<rparr>, \<lparr>MimeType = ''audio/webm''\<rparr>,
      \<lparr>MimeType = ''audio/mp4; codecs=mp4a''\<rparr>, \<lparr>MimeType = ''audio/mp4''\<rparr>]"

lemmas example_defs = ctx_ok_def song4_def example_db_def example_request_def

section \<open>Facts about the pieces\<close>

subsection \<open>Filters\<close>

lemma track_matches_id [simp]: "track_matches [(''_id'', OID oid)] t \<longleftrightarrow> ID t = oid"
  by (auto simp: track_matches_def track_field_def)

lemma playlist_matches_id [simp]:
  "playlist_matches [(''_id'', OID oid)] p \<longleftrightarrow> Playlist_ID p = oid"
  by (auto simp: playlist_matches_def playlist_field_holds_def)

lemma playlist_matches_tracks [simp]:
  "playlist_matches [(''tracks'', OID oid)] p \<longleftrightarrow> oid \<in> set (Tracks p)"
  by (auto simp: playlist_matches_def playlist_field_holds_def)

lemma file_matches_id [simp]: "file_matches [(''_id'', OID oid)] f \<longleftrightarrow> File_ID f = oid"
  by (auto simp: file_matches_def)

lemma chunk_matches_id [simp]: "chunk_matches [(''files_id'', OID oid)] c \<longleftrightarrow> files_id c = oid"
  by (auto simp: chunk_matches_def)

lemma track_matches_id_fun: "track_matches [(''_id'', OID oid)] = (\<lambda>t. ID t = oid)"
  by (rule ext) simp

lemma playlist_matches_id_fun:
  "playlist_matches [(''_id'', OID oid)] = (\<lambda>p. Playlist_ID p = oid)"
  by (rule ext) simp

lemma playlist_matches_tracks_fun:
  "playlist_matches [(''tracks'', OID oid)] = (\<lambda>p. oid \<in> set (Tracks p))"
  by (rule ext) simp

lemma file_matches_id_fun: "file_matches [(''_id'', OID oid)] = (\<lambda>f. File_ID f = oid)"
  by (rule ext) simp

lemma chunk_matches_id_fun: "chunk_matches [(''files_id'', OID oid)] = (\<lambda>c. files_id c = oid)"
  by (rule ext) simp

lemmas matches_fun = track_matches_id_fun playlist_matches_id_fun playlist_matches_tracks_fun
  file_matches_id_fun chunk_matches_id_fun

subsection \<open>Collections\<close>

lemma delete_first_none: "find P xs = None \<Longrightarrow> delete_first P xs = xs"
  by (induction xs) (auto split: if_splits)

lemma set_delete_first: "set (delete_first P xs) \<subseteq> set xs"
  by (induction xs) auto



lemma update_first_cong_found:
  "find P xs = Some d \<Longrightarrow> f d = g d \<Longrightarrow> update_first P f xs = update_first P g xs"
  by (induction xs) (auto split: if_splits)


subsection \<open>The example requests\<close>

lemma hex2: "ObjectIDFromHex ''000000000000000000000002'' = Inr 2"
  by (simp add: ObjectIDFromHex_def fromHexChar_def)

lemma hex4: "ObjectIDFromHex ''000000000000000000000004'' = Inr 4"
  by (simp add: ObjectIDFromHex_def fromHexChar_def)

lemma hex9: "ObjectIDFromHex ''000000000000000000000009'' = Inr 9"
  by (simp add: ObjectIDFromHex_def fromHexChar_def)

lemma auth_example: "authenticate (\<lambda>token. None) example_request NewRecorder = Inr ''test''"
  by (simp add: authenticate_def getAuthToken_def Header_Get_def example_request_def)

lemma auth_update: "authenticate (\<lambda>token. None) update_request NewRecorder = Inr ''test''"
  by (simp add: authenticate_def getAuthToken_def Header_Get_def update_request_def)

lemma GetTracks_example: "GetTracks ctx_ok [(''_id'', OID 9)] example_db = Inr []"
  by (simp add: GetTracks_def Find_def example_defs)

section \<open>The external auth validator\<close>

text \<open>
  Claim C5. \<open>ValidateToken\<close> returns \<open>nil\<close> exactly when the request to the login service was
  sent and answered with status 200. When the answer has another status, the error is
  \<open>non-200 status code received:\<close> followed by that status in decimal; when the client reports
  a transport error, that error is returned.
\<close>

theorem ValidateToken_status:
  "(ValidateToken NewRequest e token = None \<longleftrightarrow>
      LoginServiceURL e \<noteq> [] \<and>
      (\<exists>req resp. login_request NewRequest e = Inr req
         \<and> HttpClient e (Header_Add req ''Authorization'' (''Bearer '' @ token)) = Inr resp
         \<and> StatusCode resp = 200))
   \<and> (\<forall>req resp. LoginServiceURL e \<noteq> [] \<longrightarrow> login_request NewRequest e = Inr req \<longrightarrow>
         HttpClient e (Header_Add req ''Authorization'' (''Bearer '' @ token)) = Inr resp \<longrightarrow>
         StatusCode resp \<noteq> 200 \<longrightarrow>
         ValidateToken NewRequest e token =
           Some (New (''non-200 status code received: '' @ Sprint_int (StatusCode resp))))
   \<and> (\<forall>req err. LoginServiceURL e \<noteq> [] \<longrightarrow> login_request NewRequest e = Inr req \<longrightarrow>
         HttpClient e (Header_Add req ''Authorization'' (''Bearer '' @ token)) = Inl err \<longrightarrow>
         ValidateToken NewRequest e token = Some err)"
  by (auto simp: ValidateToken_def Let_def split: sum.splits)

text \<open>
  The three cases of the repository's tests: a teapot (418), a 200, and a client that fails.
\<close>

theorem ValidateToken_status_witness:
  "ValidateToken NewRequest_ok
      \<lparr>HttpClient = (\<lambda>req. Inr \<lparr>StatusCode = 418\<rparr>), LoginServiceURL = ''test''\<rparr> ''test''
     = Some (New ''non-200 status code received: 418'')
   \<and> ValidateToken NewRequest_ok
      \<lparr>HttpClient = (\<lambda>req. Inr \<lparr>StatusCode = 200\<rparr>), LoginServiceURL = ''test''\<rparr> ''test'' = None
   \<and> ValidateToken NewRequest_ok
      \<lparr>HttpClient = (\<lambda>req. Inl (New ''test'')), LoginServiceURL = ''test''\<rparr> ''test''
     = Some (New ''test'')"
proof -
  let ?req = "\<lparr>Method = ''POST'', URL = ''http://test/token'', ReqHeader = []\<rparr>"
  let ?e1 = "\<lparr>HttpClient = (\<lambda>req. Inr \<lparr>StatusCode = 418\<rparr>), LoginServiceURL = ''test''\<rparr>"
  let ?e2 = "\<lparr>HttpClient = (\<lambda>req. Inr \<lparr>StatusCode = 200\<rparr>), LoginServiceURL = ''test''\<rparr>"
  let ?e3 = "\<lparr>HttpClient = (\<lambda>req. Inl (New ''test'')), LoginServiceURL = ''test''\<rparr>"
  have r1: "login_request NewRequest_ok ?e1 = Inr ?req"
    and r2: "login_request NewRequest_ok ?e2 = Inr ?req"
    and r3: "login_request NewRequest_ok ?e3 = Inr ?req"
    by (simp_all add: login_request_def NewRequest_ok_def)
  have d: "Sprint_int 418 = ''418''"
    by (simp add: Sprint_int_def decimal.simps digit_char_def)
  have "ValidateToken NewRequest_ok ?e1 ''test''
      = Some (New (''non-200 status code received: '' @ Sprint_int 418))"
    using ValidateToken_status [of NewRequest_ok ?e1 "''test''"] r1 by simp
  moreover have "ValidateToken NewRequest_ok ?e2 ''test'' = None"
    using ValidateToken_status [of NewRequest_ok ?e2 "''test''"] r2 by simp
  moreover have "ValidateToken NewRequest_ok ?e3 ''test'' = Some (New ''test'')"
    using ValidateToken_status [of NewRequest_ok ?e3 "''test''"] r3 by simp
  ultimately show ?thesis using d by simp
qed

section \<open>The authorization header\<close>

text \<open>
  A header \<open>Bearer <token>\<close> whose token has no space is accepted with that token, a request
  without the header is refused, and a refused header is answered with 400 whatever the
  validator would say.
\<close>

lemma strings_Split_no_sep: "sep \<notin> set s \<Longrightarrow> strings_Split s sep = [s]"
  by (induction s) auto

lemma getAuthToken_Bearer:
  "CHR '' '' \<notin> set token \<Longrightarrow>
   getAuthToken [''Authorization'' \<mapsto> ''Bearer '' @ token] = Inr token"
  by (simp add: getAuthToken_def Header_Get_def strings_Split_no_sep)

lemma getAuthToken_missing:
  "header ''Authorization'' = None \<Longrightarrow>
   getAuthToken header = Inl (New ''no authorization header found'')"
  by (simp add: getAuthToken_def Header_Get_def)

lemma authenticate_rejected:
  "getAuthToken (Header r) = Inl err \<Longrightarrow>
   authenticate ext r w = Inl (respondWithError w StatusBadRequest (Error err))"
  by (simp add: authenticate_def)

text \<open>
  Claim C7 says that a header is accepted exactly when it has the form \<open>Bearer <token>\<close>. The
  test of the prefix is guarded by \<open>len(tokenHeader) >= 7\<close>, so a header shorter than seven
  bytes is only asked to split into two pieces: \<open>a b\<close> is accepted, and the token \<open>b\<close> is
  passed to the validator.
\<close>

theorem getAuthToken_accepts_short_header:
  "getAuthToken (Header short_header_request) = Inr ''b''
   \<and> authenticate (\<lambda>token. if token = ''b'' then None else Some (New ''test''))
        short_header_request NewRecorder = Inr ''b''"
  by (simp add: getAuthToken_def Header_Get_def authenticate_def short_header_request_def)

section \<open>Adding a track to a playlist\<close>

text \<open>
  When the query for the track does not fail, the handler behaves as if it had not been made:
  what it answers depends on the update of the playlist alone.
\<close>

lemma addTrackToPlaylist_ignores_tracks:
  assumes "authenticate ext r NewRecorder = Inr token"
    and "ObjectIDFromHex (Vars_get (Vars r) ''playlistid'') = Inr pid"
    and "ObjectIDFromHex (Vars_get (Vars r) ''trackid'') = Inr tid"
    and "Fault ctx TrackFind = None" "Fault ctx TrackCursorAll = None"
  shows "addTrackToPlaylist ctx ext r db =
     (case UpdatePlaylist ctx pid (Push_tracks tid) db of
        (Some err, db') \<Rightarrow>
          (Responded (respondWithError NewRecorder StatusInternalServerError (Error err)), db')
      | (None, db') \<Rightarrow>
          (Responded (respondWithSuccess NewRecorder StatusOK
             (Some (Message ''Track successfully added to playlist''))), db'))"
  using assms by (simp add: addTrackToPlaylist_def Let_def GetTracks_def Find_def)

text \<open>
  Claim C1 says that adding the id of a track that does not exist fails and leaves the
  playlist as it was. \<open>GetTracks\<close> on an id that no track has returns the empty list and no
  error, and the handler looks at the error only: in the example store, which has no track
  with id 9, the request is answered with 200 and the id is appended to the playlist.
\<close>

theorem addTrackToPlaylist_missing_track:
  "GetTracks ctx_ok [(''_id'', OID 9)] example_db = Inr []
   \<and> addTrackToPlaylist ctx_ok (\<lambda>token. None) example_request example_db =
       (Responded \<lparr>status = Some StatusOK,
                   written = [Message ''Track successfully added to playlist'']\<rparr>,
        example_db\<lparr>playlists :=
          [\<lparr>Playlist_ID = 2, Playlist_Name = ''Mix'', Tracks = [4, 3, 4, 9]\<rparr>]\<rparr>)"
proof -
  have u: "UpdatePlaylist ctx_ok 2 (Push_tracks 9) example_db =
      (None, example_db\<lparr>playlists :=
          [\<lparr>Playlist_ID = 2, Playlist_Name = ''Mix'', Tracks = [4, 3, 4, 9]\<rparr>]\<rparr>)"
    by (simp add: UpdatePlaylist_def FindOneAndUpdate_def matches_fun example_defs)
  have v: "Vars_get (Vars example_request) ''playlistid'' = ''000000000000000000000002''"
      "Vars_get (Vars example_request) ''trackid'' = ''000000000000000000000009''"
    by (simp_all add: Vars_get_def example_request_def)
  show ?thesis
    by (simp add: addTrackToPlaylist_def Let_def auth_example v hex9 hex2 GetTracks_example u;
        simp add: respondWithSuccess_def WriteHeader_def Write_def NewRecorder_def)
qed

section \<open>Reading the audio of a track\<close>

text \<open>The query by id succeeds with an empty list exactly when no track has the id.\<close>

lemma GetTracks_empty_iff:
  "GetTracks ctx [(''_id'', OID oid)] db = Inr [] \<longleftrightarrow>
     Fault ctx TrackFind = None \<and> Fault ctx TrackCursorAll = None
     \<and> oid \<notin> set (map ID (songs db))"
  by (auto simp: GetTracks_def Find_def matches_fun filter_empty_conv split: option.splits)

text \<open>
  Claim C10. On an authenticated request with a well-formed id, when the query succeeds with
  an empty list, \<open>getTrackAudio\<close> reads \<open>tracks[0]\<close> out of range: it panics, writing no
  response, and the store is as before.
\<close>

theorem getTrackAudio_empty_result:
  assumes "authenticate ext r NewRecorder = Inr token"
    and "ObjectIDFromHex (Vars_get (Vars r) ''id'') = Inr objectID"
    and "GetTracks ctx [(''_id'', OID objectID)] db = Inr []"
  shows "getTrackAudio ctx ext r db =
           (Panicked ''runtime error: index out of range [0] with length 0'', db)"
  using assms by (simp add: getTrackAudio_def Let_def index_def)

theorem getTrackAudio_empty_result_witness:
  "authenticate (\<lambda>token. None) example_request NewRecorder = Inr ''test''
   \<and> ObjectIDFromHex (Vars_get (Vars example_request) ''id'') = Inr 9
   \<and> GetTracks ctx_ok [(''_id'', OID 9)] example_db = Inr []
   \<and> getTrackAudio ctx_ok (\<lambda>token. None) example_request example_db =
           (Panicked ''runtime error: index out of range [0] with length 0'', example_db)"
proof -
  have a: "authenticate (\<lambda>token. None) example_request NewRecorder = Inr ''test''"
    by (rule auth_example)
  have h: "ObjectIDFromHex (Vars_get (Vars example_request) ''id'') = Inr 9"
    by (simp add: Vars_get_def example_request_def hex9)
  have g: "GetTracks ctx_ok [(''_id'', OID 9)] example_db = Inr []"
    by (rule GetTracks_example)
  show ?thesis
    using a h g getTrackAudio_empty_result [OF a h g] by simp
qed

section \<open>Updating a track\<close>

text \<open>
  The storage client overwrites the fields that are not empty in what it is given, and
  nothing else: on a store whose calls succeed, the track found is replaced by itself with
  those fields changed.
\<close>

lemma UpdateTrack_result:
  assumes "Fault ctx TrackFindOne = None" "Fault ctx TrackDecode = None"
    "Fault ctx TrackFindOneAndUpdate = None"
    and "find (\<lambda>t. ID t = oid) (songs db) = Some t"
  shows "UpdateTrack ctx oid u db =
     (None, db\<lparr>songs := update_first (\<lambda>t. ID t = oid)
        (\<lambda>_. t\<lparr>Name := (if Name u = [] then Name t else Name u),
               Artist := (if Artist u = [] then Artist t else Artist u),
               AlbumName := (if AlbumName u = [] then AlbumName t else AlbumName u)\<rparr>)
        (songs db)\<rparr>)"
proof -
  let ?m = "t\<lparr>Name := (if Name u = [] then Name t else Name u),
               Artist := (if Artist u = [] then Artist t else Artist u),
               AlbumName := (if AlbumName u = [] then AlbumName t else AlbumName u)\<rparr>"
  have key: "update_first (\<lambda>t. ID t = oid) (set_track m) (songs db)
      = update_first (\<lambda>t. ID t = oid) (\<lambda>_. ?m) (songs db)" if "m = ?m" for m
    using that by (intro update_first_cong_found [OF assms(4)]) (simp add: set_track_def)
  show ?thesis
    using assms
    by (simp add: UpdateTrack_def FindOne_def FindOneAndUpdate_def matches_fun Let_def key)
qed

text \<open>
  Claim C3 says that a field given as empty in the body of \<open>PUT /track/{id}\<close> leaves the stored
  value unchanged. The handler of the authenticated API puts the defaults in the empty fields
  of the body before it calls the storage client, so they are not empty any more when they
  get there: a body that names the track only resets the stored artist and album.
\<close>

theorem updateTrack_overwrites_with_defaults:
  "updateTrack ctx_ok (\<lambda>token. None) update_request example_db =
     (Responded \<lparr>status = Some StatusOK, written = [Message ''Track updated successfully'']\<rparr>,
      example_db\<lparr>songs := [\<lparr>ID = 4, Name = ''New'', Artist = ''Unknown Artist'',
                              AlbumName = ''Unknown Album'', AudioFileID = 5\<rparr>]\<rparr>)"
proof -
  have v: "Vars_get (Vars update_request) ''id'' = ''000000000000000000000004''"
    by (simp add: Vars_get_def update_request_def)
  have b: "Body update_request = Value (Track_zero\<lparr>Name := ''New''\<rparr>)"
    by (simp add: update_request_def)
  have u: "UpdateTrack ctx_ok 4 (with_defaults (Track_zero\<lparr>Name := ''New''\<rparr>)) example_db =
      (None, example_db\<lparr>songs := [\<lparr>ID = 4, Name = ''New'', Artist = ''Unknown Artist'',
                              AlbumName = ''Unknown Album'', AudioFileID = 5\<rparr>]\<rparr>)"
    by (simp add: UpdateTrack_def FindOne_def FindOneAndUpdate_def matches_fun Let_def
        with_defaults_def Track_zero_def set_track_def NilObjectID_def example_defs)
  show ?thesis
    by (simp add: updateTrack_def Let_def auth_update v b hex4 u;
        simp add: respondWithSuccess_def WriteHeader_def Write_def NewRecorder_def)
qed

text \<open>The handler of \<open>pkg/api/api.go\<close>, on the same body, changes the name only.\<close>

lemma updateTrack_api_keeps_fields:
  "updateTrack_api ctx_ok update_request example_db =
     (Responded \<lparr>status = Some StatusOK, written = [Message ''Track updated successfully'']\<rparr>,
      example_db\<lparr>songs := [\<lparr>ID = 4, Name = ''New'', Artist = ''Band'',
                              AlbumName = ''Album'', AudioFileID = 5\<rparr>]\<rparr>)"
proof -
  have v: "Vars_get (Vars update_request) ''id'' = ''000000000000000000000004''"
    by (simp add: Vars_get_def update_request_def)
  have b: "Body update_request = Value (Track_zero\<lparr>Name := ''New''\<rparr>)"
    by (simp add: update_request_def)
  have u: "UpdateTrack ctx_ok 4 (Track_zero\<lparr>Name := ''New''\<rparr>) example_db =
      (None, example_db\<lparr>songs := [\<lparr>ID = 4, Name = ''New'', Artist = ''Band'',
                              AlbumName = ''Album'', AudioFileID = 5\<rparr>]\<rparr>)"
    by (simp add: UpdateTrack_def FindOne_def FindOneAndUpdate_def matches_fun Let_def
        Track_zero_def set_track_def NilObjectID_def example_defs)
  show ?thesis
    by (simp add: updateTrack_api_def Let_def v b hex4 u;
        simp add: respondWithSuccess_def WriteHeader_def Write_def NewRecorder_def)
qed

section \<open>Unique ids\<close>

text \<open>
  The database keeps the \<open>_id\<close> of a collection unique. The storage client preserves this for
  the tracks and for the file documents: an insert refuses an id that is taken, an update
  keeps the ids, and a delete only removes documents.
\<close>

lemma map_key_delete_first_subset: "set (map key (delete_first P xs)) \<subseteq> set (map key xs)"
  using set_delete_first [of P xs] by auto

lemma distinct_delete_first:
  "distinct (map key xs) \<Longrightarrow> distinct (map key (delete_first P xs))"
proof (induction xs)
  case Nil
  then show ?case by simp
next
  case (Cons d xs)
  then show ?case
    using map_key_delete_first_subset [of key P xs] by auto
qed

lemma map_key_update_first:
  "(\<And>d. P d \<Longrightarrow> key (f d) = key d) \<Longrightarrow> map key (update_first P f xs) = map key xs"
  by (induction xs) auto

lemma AddTrack_unique:
  "distinct (map ID (songs db)) \<Longrightarrow> distinct (map ID (songs (snd (AddTrack ctx track db))))"
  by (auto simp: AddTrack_def InsertOne_def split: option.splits)

lemma UpdateTrack_songs:
  "map ID (songs (snd (UpdateTrack ctx oid u db))) = map ID (songs db)"
proof (cases "Fault ctx TrackFindOne")
  case (Some err)
  then show ?thesis by (simp add: UpdateTrack_def FindOne_def)
next
  case None
  note f1 = None
  show ?thesis
  proof (cases "find (\<lambda>t. ID t = oid) (songs db)")
    case None
    with f1 show ?thesis by (simp add: UpdateTrack_def FindOne_def matches_fun)
  next
    case (Some t)
    then have t: "ID t = oid"
      by (auto simp: find_Some_iff)
    have m: "map ID (update_first (\<lambda>t. ID t = oid) (set_track m) (songs db)) = map ID (songs db)"
      if "ID m = oid" for m
      using that by (intro map_key_update_first) (simp add: set_track_def)
    show ?thesis
    proof (cases "Fault ctx TrackDecode")
      case (Some err)
      with f1 \<open>find (\<lambda>t. ID t = oid) (songs db) = Some t\<close> show ?thesis
        by (simp add: UpdateTrack_def FindOne_def matches_fun)
    next
      case None
      note f2 = None
      show ?thesis
      proof (cases "Fault ctx TrackFindOneAndUpdate")
        case (Some err)
        with f1 f2 \<open>find (\<lambda>t. ID t = oid) (songs db) = Some t\<close> show ?thesis
          by (simp add: UpdateTrack_def FindOne_def FindOneAndUpdate_def matches_fun Let_def)
      next
        case None
        with f1 f2 \<open>find (\<lambda>t. ID t = oid) (songs db) = Some t\<close> t show ?thesis
          by (simp add: UpdateTrack_def FindOne_def FindOneAndUpdate_def matches_fun Let_def m)
      qed
    qed
  qed
qed

lemma UploadAudioFile_unique:
  "distinct (map File_ID (fs_files db)) \<Longrightarrow>
   distinct (map File_ID (fs_files (snd (UploadAudioFile ctx audioFile trackName db))))"
  by (simp add: UploadAudioFile_def stream_Close_def Let_def split: option.splits)

lemma DeleteTrack_unique:
  assumes "distinct (map ID (songs db))" "distinct (map File_ID (fs_files db))"
  shows "distinct (map ID (songs (snd (DeleteTrack ctx oid db))))"
    and "distinct (map File_ID (fs_files (snd (DeleteTrack ctx oid db))))"
  using assms
  by (simp_all add: DeleteTrack_def FindOneAndDelete_def DeleteOne_def DeleteMany_def
      UpdateMany_def Let_def matches_fun distinct_delete_first
      split: option.splits prod.splits)

section \<open>Deleting a track\<close>

lemma DeleteOne_None:
  "DeleteOne None P docs = (Inr (if find P docs = None then 0 else 1), delete_first P docs)"
  by (auto simp: DeleteOne_def delete_first_none split: option.splits)








section \<open>Errors of the store\<close>

text \<open>
  An error of an insert, or of the first call of \<open>DeleteTrack\<close>, comes back as it is.
\<close>

lemma AddTrack_error:
  "Fault ctx TrackInsertOne = Some err \<Longrightarrow> AddTrack ctx track db = (Some err, db)"
  by (simp add: AddTrack_def InsertOne_def)

lemma DeleteTrack_error:
  "Fault ctx TrackFindOneAndDelete = Some err \<Longrightarrow> DeleteTrack ctx oid db = (Some err, db)"
  by (simp add: DeleteTrack_def FindOneAndDelete_def)

text \<open>
  The last call of \<open>DeleteTrack\<close> assigns its error (\<open>_, err = ...UpdateMany(...)\<close>) and the
  method returns \<open>nil\<close> on the next line: whenever the four calls before it succeed, the
  result is \<open>nil\<close> whether the clean-up failed or not.
\<close>

lemma DeleteTrack_drops_cleanup_error:
  assumes "Fault ctx TrackFindOneAndDelete = None" "Fault ctx TrackDecode = None"
    "Fault ctx AudioDeleteOne = None" "Fault ctx ChunkDeleteMany = None"
    and "find (\<lambda>t. ID t = oid) (songs db) = Some t"
  shows "fst (DeleteTrack ctx oid db) = None"
  using assms
  by (simp add: DeleteTrack_def Let_def matches_fun FindOneAndDelete_def DeleteOne_None
      DeleteMany_def split: prod.splits)

text \<open>
  Claim C4 says that every error of the store is returned to the caller, and that
  \<open>DeleteTrack\<close> returns an error whenever the playlist clean-up fails. In the example store,
  with a context in which \<open>UpdateMany\<close> fails, \<open>DeleteTrack\<close> returns \<open>nil\<close>; the track and its
  audio are gone and the playlists still list the id.
\<close>

theorem DeleteTrack_swallows_cleanup_error:
  "Fault ctx_cleanup_fails PlaylistUpdateMany = Some (New ''connection reset'')
   \<and> DeleteTrack ctx_cleanup_fails 4 example_db =
       (None, example_db\<lparr>songs := [], fs_files := [], fs_chunks := []\<rparr>)"
  by (simp add: DeleteTrack_def Let_def matches_fun FindOneAndDelete_def DeleteOne_def
        DeleteMany_def UpdateMany_def example_defs ctx_cleanup_fails_def)

section \<open>Choosing the stream format\<close>

text \<open>
  The loop returns the index it started with plus the least index of a format whose MIME type
  contains \<open>audio/mp4\<close>, and the initial \<open>formatIndex\<close> when there is none.
\<close>

lemma range_Formats_find:
  "range_Formats fs i d =
     (if \<exists>f \<in> set fs. strings_Contains (MimeType f) ''audio/mp4''
      then i + (LEAST k. k < length fs \<and> strings_Contains (MimeType (fs ! k)) ''audio/mp4'')
      else d)"
proof (induction fs arbitrary: i)
  case Nil
  then show ?case by simp
next
  case (Cons f fs)
  let ?P = "\<lambda>f. strings_Contains (MimeType f) ''audio/mp4''"
  show ?case
  proof (cases "?P f")
    case True
    have "(LEAST k. k < length (f # fs) \<and> ?P ((f # fs) ! k)) = 0"
      using True by (intro Least_equality) auto
    with True show ?thesis by simp
  next
    case False
    show ?thesis
    proof (cases "\<exists>g \<in> set fs. ?P g")
      case True
      then obtain k where k: "k < length fs \<and> ?P (fs ! k)"
        by (auto simp: in_set_conv_nth)
      have "(LEAST k. k < length (f # fs) \<and> ?P ((f # fs) ! k))
          = Suc (LEAST k. k < length fs \<and> ?P (fs ! k))"
      proof (rule Least_Suc2 [where Q = "\<lambda>k. k < length fs \<and> ?P (fs ! k)" and n = "Suc k"])
        show "Suc k < length (f # fs) \<and> ?P ((f # fs) ! Suc k)" using k by simp
        show "k < length fs \<and> ?P (fs ! k)" using k .
        show "\<not> (0 < length (f # fs) \<and> ?P ((f # fs) ! 0))" using False by simp
        show "\<forall>k. (Suc k < length (f # fs) \<and> ?P ((f # fs) ! Suc k))
                 = (k < length fs \<and> ?P (fs ! k))" by simp
      qed
      with False True Cons.IH [of "Suc i"] show ?thesis by simp
    next
      case no_audio: False
      with False Cons.IH [of "Suc i"] show ?thesis by simp
    qed
  qed
qed

text \<open>
  Claim C8 says that, for every video whose formats are examined, the format at index 0 is
  chosen when no MIME type contains \<open>audio/mp4\<close>. The handlers read
  \<open>video.Formats[formatIndex]\<close> with no check of the length: on a video with no format the
  index is 0, the read is out of range and no format is chosen.
\<close>

theorem formatIndex_first_audio_counterexample:
  "formatIndex ([] :: Format list) = 0
   \<and> index ([] :: Format list) 0 = None
   \<and> chosen_format ([] :: Format list) = None"
  by (simp add: formatIndex_def chosen_format_def index_def)

text \<open>
  Claim C8, amended. For every video that has a format: when some format has a MIME type
  containing \<open>audio/mp4\<close>, the index chosen is in range, the format there is such a format,
  no format before it is, and that format is the one handed to \<open>GetStream\<close>; when no format
  has, the index chosen is 0 and the format handed over is the first one.
\<close>

theorem formatIndex_first_audio:
  assumes "formats \<noteq> []"
  shows "((\<exists>f \<in> set formats. strings_Contains (MimeType f) ''audio/mp4'') \<longrightarrow>
      formatIndex formats < length formats
      \<and> strings_Contains (MimeType (formats ! formatIndex formats)) ''audio/mp4''
      \<and> (\<forall>j < formatIndex formats. \<not> strings_Contains (MimeType (formats ! j)) ''audio/mp4'')
      \<and> chosen_format formats = Some (formats ! formatIndex formats))
   \<and> ((\<forall>f \<in> set formats. \<not> strings_Contains (MimeType f) ''audio/mp4'') \<longrightarrow>
      formatIndex formats = 0 \<and> chosen_format formats = Some (formats ! 0))"
proof -
  let ?P = "\<lambda>k. k < length formats \<and> strings_Contains (MimeType (formats ! k)) ''audio/mp4''"
  have none: "formatIndex formats = 0"
    if "\<forall>f \<in> set formats. \<not> strings_Contains (MimeType f) ''audio/mp4''"
    using that by (simp add: formatIndex_def range_Formats_find)
  have some: "?P (formatIndex formats) \<and> (\<forall>j < formatIndex formats. \<not> ?P j)"
    if "\<exists>f \<in> set formats. strings_Contains (MimeType f) ''audio/mp4''"
  proof -
    from that obtain k where k: "?P k"
      by (auto simp: in_set_conv_nth)
    have eq: "formatIndex formats = (LEAST k. ?P k)"
      using that by (simp add: formatIndex_def range_Formats_find)
    have l: "?P (LEAST k. ?P k)"
      using k by (rule LeastI)
    have m: "\<not> ?P j" if "j < (LEAST k. ?P k)" for j
      using that by (rule not_less_Least)
    show ?thesis
      unfolding eq using l m by blast
  qed
  show ?thesis
  proof (intro conjI impI)
    assume a: "\<exists>f \<in> set formats. strings_Contains (MimeType f) ''audio/mp4''"
    from some [OF a] show "formatIndex formats < length formats"
      and "strings_Contains (MimeType (formats ! formatIndex formats)) ''audio/mp4''"
      and "chosen_format formats = Some (formats ! formatIndex formats)"
      by (simp_all add: chosen_format_def index_def)
    from some [OF a] have "\<not> ?P j" if "j < formatIndex formats" for j
      using that by blast
    then show "\<forall>j < formatIndex formats. \<not> strings_Contains (MimeType (formats ! j)) ''audio/mp4''"
      using some [OF a] by (meson less_trans)
  next
    assume a: "\<forall>f \<in> set formats. \<not> strings_Contains (MimeType f) ''audio/mp4''"
    from none [OF a] show "formatIndex formats = 0"
      by simp
    from none [OF a] assms show "chosen_format formats = Some (formats ! 0)"
      by (simp add: chosen_format_def index_def)
  qed
qed

lemma contains_examples:
  "\<not> strings_Contains ''video/mp4'' ''audio/mp4''"
  "\<not> strings_Contains ''audio/webm'' ''audio/mp4''"
  "strings_Contains ''audio/mp4; codecs=mp4a'' ''audio/mp4''"
  by simp_all

theorem formatIndex_first_audio_witness:
  "example_formats \<noteq> []
   \<and> (\<exists>f \<in> set example_formats. strings_Contains (MimeType f) ''audio/mp4'')
   \<and> formatIndex example_formats = 2
   \<and> chosen_format example_formats = Some \<lparr>MimeType = ''audio/mp4; codecs=mp4a''\<rparr>
   \<and> take 2 example_formats \<noteq> []
   \<and> list_all (\<lambda>f. \<not> strings_Contains (MimeType f) ''audio/mp4'') (take 2 example_formats)
   \<and> formatIndex (take 2 example_formats) = 0
   \<and> chosen_format (take 2 example_formats) = Some \<lparr>MimeType = ''video/mp4''\<rparr>"
proof -
  have t: "take 2 example_formats = [\<lparr>MimeType = ''video/mp4''\<rparr>, \<lparr>MimeType = ''audio/webm''\<rparr>]"
    by (simp add: example_formats_def)
  have ne: "example_formats \<noteq> []" "take 2 example_formats \<noteq> []"
    by (simp_all add: example_formats_def)
  have e: "\<exists>f \<in> set example_formats. strings_Contains (MimeType f) ''audio/mp4''"
    by (simp add: example_formats_def contains_examples del: strings_Contains.simps)
  have n: "\<forall>f \<in> set (take 2 example_formats). \<not> strings_Contains (MimeType f) ''audio/mp4''"
    unfolding t by (simp add: contains_examples del: strings_Contains.simps)
  have i: "formatIndex example_formats = 2"
    by (simp add: formatIndex_def example_formats_def contains_examples
        del: strings_Contains.simps)
  have nth2: "example_formats ! 2 = \<lparr>MimeType = ''audio/mp4; codecs=mp4a''\<rparr>"
    by (simp add: example_formats_def)
  from formatIndex_first_audio [OF ne(1)] e
  have "chosen_format example_formats = Some (example_formats ! formatIndex example_formats)"
    by blast
  then have 1: "chosen_format example_formats = Some \<lparr>MimeType = ''audio/mp4; codecs=mp4a''\<rparr>"
    by (simp only: i nth2)
  from formatIndex_first_audio [OF ne(2)] n
  have "formatIndex (take 2 example_formats) = 0
      \<and> chosen_format (take 2 example_formats) = Some (take 2 example_formats ! 0)"
    by blast
  then have 2: "formatIndex (take 2 example_formats) = 0"
    "chosen_format (take 2 example_formats) = Some \<lparr>MimeType = ''video/mp4''\<rparr>"
    by (simp_all add: t)
  have n': "list_all (\<lambda>f. \<not> strings_Contains (MimeType f) ''audio/mp4'') (take 2 example_formats)"
    using n unfolding list_all_iff .
  show ?thesis
    using ne e i 1 n' 2 by (intro conjI)
qed

section \<open>Uploading a track\<close>

subsection \<open>The status of a response\<close>

lemma status_respondWithError:
  "status (respondWithError w code msg) = Some (case status w of None \<Rightarrow> code | Some c \<Rightarrow> c)"
  by (simp add: respondWithError_def Write_def WriteHeader_def Let_def split: option.splits)

lemma status_respondWithSuccess:
  "status (respondWithSuccess w code b) = Some (case status w of None \<Rightarrow> code | Some c \<Rightarrow> c)"
  by (simp add: respondWithSuccess_def Write_def WriteHeader_def Let_def split: option.splits)

lemma status_NewRecorder: "status NewRecorder = None"
  by (simp add: NewRecorder_def)

lemma authenticate_status:
  "authenticate ext r NewRecorder = Inl w \<Longrightarrow>
   status w = Some StatusBadRequest \<or> status w = Some StatusUnauthorized"
  by (auto simp: authenticate_def status_respondWithError status_NewRecorder
      split: sum.splits option.splits)

subsection \<open>The steps of the upload\<close>

lemma with_defaults_fields:
  "with_defaults track =
     track\<lparr>Name := (if Name track = [] then ''Unknown'' else Name track),
           Artist := (if Artist track = [] then ''Unknown Artist'' else Artist track),
           AlbumName := (if AlbumName track = [] then ''Unknown Album'' else AlbumName track)\<rparr>"
  by (simp add: with_defaults_def Let_def)

lemma UploadAudioFile_cases:
  "UploadAudioFile ctx buf name db = (res, db') \<Longrightarrow>
     songs db' = songs db \<and> playlists db' = playlists db
     \<and> (\<forall>a. res = Inr a \<longrightarrow> a = AnObjectID (NewFileID ctx))"
  by (auto simp: UploadAudioFile_def stream_Close_def Let_def split: option.splits if_splits)

lemma AddTrack_cases:
  "AddTrack ctx track db = (None, db') \<Longrightarrow> db' = db\<lparr>songs := songs db @ [track]\<rparr>"
  by (auto simp: AddTrack_def InsertOne_def split: option.splits if_splits)

lemma chunks_of_small: "xs \<noteq> [] \<Longrightarrow> length xs \<le> n \<Longrightarrow> chunks_of n xs = [xs]"
  by (simp add: chunks_of.simps)

lemma UploadAudioFile_result:
  assumes "Fault ctx NewBucket = None" "Fault ctx OpenUploadStream = None"
    "Fault ctx StreamWrite = None" "Fault ctx StreamClose = None"
    and "NewFileID ctx \<notin> set (map File_ID (fs_files db))"
  shows "UploadAudioFile ctx audioFile trackName db =
     (Inr (AnObjectID (NewFileID ctx)),
      db\<lparr>fs_chunks := fs_chunks db @
             map (\<lambda>(n, d). \<lparr>files_id = NewFileID ctx, chunk_n = n, chunk_data = d\<rparr>)
               (enumerate 0 (chunks_of DefaultChunkSize audioFile)),
          fs_files := fs_files db @
             [\<lparr>File_ID = NewFileID ctx, filename = trackName, fileLength = length audioFile\<rparr>]\<rparr>)"
  using assms by (simp add: UploadAudioFile_def stream_Close_def Let_def)

lemma AddTrack_result:
  assumes "Fault ctx TrackInsertOne = None" "ID track \<notin> set (map ID (songs db))"
  shows "AddTrack ctx track db = (None, db\<lparr>songs := songs db @ [track]\<rparr>)"
  using assms by (simp add: AddTrack_def InsertOne_def)

lemma chunks_example: "chunks_of DefaultChunkSize [1, 2, 3 :: 8 word] = [[1, 2, 3]]"
  by (rule chunks_of_small) (simp_all add: DefaultChunkSize_def)

lemma auth_upload: "authenticate (\<lambda>token. None) upload_request NewRecorder = Inr ''test''"
  by (simp add: authenticate_def getAuthToken_def Header_Get_def upload_request_def)

text \<open>
  Once the token is valid and the form holds the file, the rest of \<open>uploadTrack\<close>: the
  response of a failed decoding is written and the handler carries on with the track as the
  decoder left it.
\<close>

lemma uploadTrack_after_form:
  assumes "authenticate ext r NewRecorder = Inr token" "ParseForm r = None"
    "FormFile r ''input'' = Some (Inr buf)"
  shows "uploadTrack ctx ext r db =
     (let (err, track) = json_Unmarshal (FormValue_body r) Track_zero;
          w = (case err of
                 Some e \<Rightarrow> respondWithError NewRecorder StatusBadRequest (Error e)
               | None \<Rightarrow> NewRecorder);
          track = with_defaults (track\<lparr>ID := NewObjectID ctx\<rparr>)
      in case UploadAudioFile ctx buf (Name track) db of
           (Inl err, db') \<Rightarrow>
             (Responded (respondWithError w StatusInternalServerError (Error err)), db')
         | (Inr NotAnObjectID, db') \<Rightarrow>
             (Responded (respondWithError w StatusInternalServerError
                ''invalid audioID received from handler''), db')
         | (Inr (AnObjectID audioID), db') \<Rightarrow>
             (case AddTrack ctx (track\<lparr>AudioFileID := audioID\<rparr>) db' of
                (Some err, db'') \<Rightarrow>
                  (Responded (respondWithError w StatusInternalServerError (Error err)), db'')
              | (None, db'') \<Rightarrow>
                  (Responded (respondWithSuccess w StatusOK
                     (Some (Message ''Track added successfully''))), db'')))"
  using assms
  by (simp add: uploadTrack_def Let_def split: prod.splits sum.splits any.splits)

lemma uploadTrack_example:
  "uploadTrack ctx_ok (\<lambda>token. None) upload_request example_db =
     (Responded \<lparr>status = Some StatusOK, written = [Message ''Track added successfully'']\<rparr>,
      example_db
        \<lparr>fs_chunks := [\<lparr>files_id = 5, chunk_n = 0, chunk_data = [1, 2]\<rparr>,
                        \<lparr>files_id = 8, chunk_n = 0, chunk_data = [1, 2, 3]\<rparr>],
         fs_files := [\<lparr>File_ID = 5, filename = ''Song'', fileLength = 2\<rparr>,
                       \<lparr>File_ID = 8, filename = ''Unknown'', fileLength = 3\<rparr>],
         songs := [song4,
                   \<lparr>ID = 7, Name = ''Unknown'', Artist = ''Band'',
                     AlbumName = ''Unknown Album'', AudioFileID = 8\<rparr>]\<rparr>)"
proof -
  have r: "ParseForm upload_request = None"
    "FormFile upload_request ''input'' = Some (Inr [1, 2, 3])"
    by (simp_all add: upload_request_def)
  have b: "FormValue_body upload_request = Value (Track_zero\<lparr>Artist := ''Band''\<rparr>)"
    by (simp add: upload_request_def)
  show ?thesis
    unfolding uploadTrack_after_form [OF auth_upload r]
    by (simp add: b example_defs UploadAudioFile_def stream_Close_def AddTrack_def
        InsertOne_def with_defaults_def Track_zero_def NilObjectID_def chunks_example
        respondWithSuccess_def WriteHeader_def Write_def NewRecorder_def)
qed

text \<open>
  Claim C6. A creation is successful when the response has status 200. Then the body decoded
  without error, and the track stored is the last of the collection: it has the fresh id, the
  id of the uploaded audio file, and for name, artist and album the value of the body when it
  is not empty and \<open>Unknown\<close>, \<open>Unknown Artist\<close>, \<open>Unknown Album\<close> when it is.
\<close>

theorem uploadTrack_stores_defaults:
  assumes "uploadTrack ctx ext r db = (Responded w, db')" and "status w = Some StatusOK"
  shows "\<exists>body. FormValue_body r = Value body \<and>
     songs db' = songs db @
       [\<lparr>ID = NewObjectID ctx,
         Name = (if Name body = [] then ''Unknown'' else Name body),
         Artist = (if Artist body = [] then ''Unknown Artist'' else Artist body),
         AlbumName = (if AlbumName body = [] then ''Unknown Album'' else AlbumName body),
         AudioFileID = NewFileID ctx\<rparr>]"
proof (cases "authenticate ext r NewRecorder")
  case (Inl w')
  then have "uploadTrack ctx ext r db = (Responded w', db)"
    by (simp add: uploadTrack_def Let_def)
  with assms authenticate_status [OF Inl] show ?thesis by auto
next
  case (Inr token)
  show ?thesis
  proof (cases "ParseForm r")
    case (Some err)
    with Inr have "uploadTrack ctx ext r db =
        (Responded (respondWithError NewRecorder StatusBadRequest (Error err)), db)"
      by (simp add: uploadTrack_def Let_def)
    with assms show ?thesis
      by (auto simp: status_respondWithError status_NewRecorder)
  next
    case None
    show ?thesis
    proof (cases "FormFile r ''input''")
      case no_file: None
      with Inr None have "uploadTrack ctx ext r db =
          (Responded (respondWithError NewRecorder StatusBadRequest (Error ErrMissingFile)), db)"
        by (simp add: uploadTrack_def Let_def)
      with assms show ?thesis
        by (auto simp: status_respondWithError status_NewRecorder)
    next
      case (Some f)
      show ?thesis
      proof (cases f)
        case (Inl err)
        with Inr None Some have "uploadTrack ctx ext r db =
            (Responded (respondWithError NewRecorder StatusInternalServerError (Error err)), db)"
          by (simp add: uploadTrack_def Let_def)
        with assms show ?thesis
          by (auto simp: status_respondWithError status_NewRecorder)
      next
        case buf: (Inr buf)
        note up = uploadTrack_after_form [OF Inr None Some [unfolded buf], of ctx db]
        obtain res db1 where u: "UploadAudioFile ctx buf
            (Name (with_defaults (snd (json_Unmarshal (FormValue_body r) Track_zero)
               \<lparr>ID := NewObjectID ctx\<rparr>))) db = (res, db1)"
          by (cases "UploadAudioFile ctx buf
            (Name (with_defaults (snd (json_Unmarshal (FormValue_body r) Track_zero)
               \<lparr>ID := NewObjectID ctx\<rparr>))) db") 
        note uc = UploadAudioFile_cases [OF u]
        show ?thesis
        proof (cases "FormValue_body r")
          case (SyntaxError e)
          with assms up u show ?thesis
            by (auto simp: Let_def status_respondWithError status_respondWithSuccess
                status_NewRecorder split: sum.splits any.splits prod.splits option.splits)
        next
          case (UnmarshalTypeError e v)
          with assms up u show ?thesis
            by (auto simp: Let_def status_respondWithError status_respondWithSuccess
                status_NewRecorder split: sum.splits any.splits prod.splits option.splits)
        next
          case (Value body)
          with assms up u uc show ?thesis
            by (auto simp: Let_def status_respondWithError status_respondWithSuccess
                status_NewRecorder with_defaults_fields
                split: sum.splits any.splits prod.splits option.splits
                dest!: AddTrack_cases)
        qed
      qed
    qed
  qed
qed

text \<open>A body that gives the artist only, as in \<open>{"name": "", "artist": "Band"}\<close>.\<close>

theorem uploadTrack_stores_defaults_witness:
  "uploadTrack ctx_ok (\<lambda>token. None) upload_request example_db =
     (Responded \<lparr>status = Some StatusOK, written = [Message ''Track added successfully'']\<rparr>,
      example_db
        \<lparr>fs_chunks := [\<lparr>files_id = 5, chunk_n = 0, chunk_data = [1, 2]\<rparr>,
                        \<lparr>files_id = 8, chunk_n = 0, chunk_data = [1, 2, 3]\<rparr>],
         fs_files := [\<lparr>File_ID = 5, filename = ''Song'', fileLength = 2\<rparr>,
                       \<lparr>File_ID = 8, filename = ''Unknown'', fileLength = 3\<rparr>],
         songs := [song4,
                   \<lparr>ID = 7, Name = ''Unknown'', Artist = ''Band'',
                     AlbumName = ''Unknown Album'', AudioFileID = 8\<rparr>]\<rparr>)
   \<and> FormValue_body upload_request = Value (Track_zero\<lparr>Artist := ''Band''\<rparr>)
   \<and> (\<exists>body. FormValue_body upload_request = Value body \<and>
        [song4, \<lparr>ID = 7, Name = ''Unknown'', Artist = ''Band'',
                  AlbumName = ''Unknown Album'', AudioFileID = 8\<rparr>] =
        songs example_db @
          [\<lparr>ID = NewObjectID ctx_ok,
            Name = (if Name body = [] then ''Unknown'' else Name body),
            Artist = (if Artist body = [] then ''Unknown Artist'' else Artist body),
            AlbumName = (if AlbumName body = [] then ''Unknown Album'' else AlbumName body),
            AudioFileID = NewFileID ctx_ok\<rparr>])"
proof -
  have b: "FormValue_body upload_request = Value (Track_zero\<lparr>Artist := ''Band''\<rparr>)"
    by (simp add: upload_request_def)
  have s: "status \<lparr>status = Some StatusOK, written = [Message ''Track added successfully'']\<rparr>
      = Some StatusOK"
    by simp
  from uploadTrack_stores_defaults [OF uploadTrack_example s]
  have "\<exists>body. FormValue_body upload_request = Value body \<and>
        [song4, \<lparr>ID = 7, Name = ''Unknown'', Artist = ''Band'',
                  AlbumName = ''Unknown Album'', AudioFileID = 8\<rparr>] =
        songs example_db @
          [\<lparr>ID = NewObjectID ctx_ok,
            Name = (if Name body = [] then ''Unknown'' else Name body),
            Artist = (if Artist body = [] then ''Unknown Artist'' else Artist body),
            AlbumName = (if AlbumName body = [] then ''Unknown Album'' else AlbumName body),
            AudioFileID = NewFileID ctx_ok\<rparr>]"
    by simp
  with uploadTrack_example b show ?thesis by (intro conjI)
qed

text \<open>
  Claim C9. On an authenticated request whose form holds the file and whose \<open>body\<close> field is
  not valid JSON, the handler always answers, and with status 400, whatever the store does
  afterwards; and it does go on: when the calls of the upload and of the insert succeed and
  the fresh ids are not taken, the audio is stored under the name \<open>Unknown\<close> and a track with
  the three defaults is inserted. The response carries the error and, after it, the message
  of a successful creation.
\<close>

theorem uploadTrack_invalid_json:
  assumes "authenticate ext r NewRecorder = Inr token" and "ParseForm r = None"
    and "FormFile r ''input'' = Some (Inr buf)" and "FormValue_body r = SyntaxError err"
  shows "(\<exists>w db'. uploadTrack ctx ext r db = (Responded w, db')
            \<and> status w = Some StatusBadRequest)
    \<and> (Fault ctx NewBucket = None \<longrightarrow> Fault ctx OpenUploadStream = None \<longrightarrow>
        Fault ctx StreamWrite = None \<longrightarrow> Fault ctx StreamClose = None \<longrightarrow>
        Fault ctx TrackInsertOne = None \<longrightarrow>
        NewFileID ctx \<notin> set (map File_ID (fs_files db)) \<longrightarrow>
        NewObjectID ctx \<notin> set (map ID (songs db)) \<longrightarrow>
        uploadTrack ctx ext r db =
          (Responded (respondWithSuccess
             (respondWithError NewRecorder StatusBadRequest (Error err)) StatusOK
             (Some (Message ''Track added successfully''))),
           db\<lparr>fs_chunks := fs_chunks db @
                  map (\<lambda>(n, d). \<lparr>files_id = NewFileID ctx, chunk_n = n, chunk_data = d\<rparr>)
                    (enumerate 0 (chunks_of DefaultChunkSize buf)),
               fs_files := fs_files db @
                  [\<lparr>File_ID = NewFileID ctx, filename = ''Unknown'', fileLength = length buf\<rparr>],
               songs := songs db @
                  [\<lparr>ID = NewObjectID ctx, Name = ''Unknown'', Artist = ''Unknown Artist'',
                    AlbumName = ''Unknown Album'', AudioFileID = NewFileID ctx\<rparr>]\<rparr>))"
proof -
  note up = uploadTrack_after_form [OF assms(1-3), of ctx db]
  have d: "with_defaults (Track_zero\<lparr>ID := NewObjectID ctx\<rparr>) =
      \<lparr>ID = NewObjectID ctx, Name = ''Unknown'', Artist = ''Unknown Artist'',
       AlbumName = ''Unknown Album'', AudioFileID = NilObjectID\<rparr>"
    by (simp add: with_defaults_def Track_zero_def)
  have always: "\<exists>w db'. uploadTrack ctx ext r db = (Responded w, db')
            \<and> status w = Some StatusBadRequest"
    unfolding up
    by (auto simp: assms(4) Let_def status_respondWithError status_respondWithSuccess
        status_NewRecorder split: sum.splits any.splits prod.splits option.splits)
  have stored: "uploadTrack ctx ext r db =
          (Responded (respondWithSuccess
             (respondWithError NewRecorder StatusBadRequest (Error err)) StatusOK
             (Some (Message ''Track added successfully''))),
           db\<lparr>fs_chunks := fs_chunks db @
                  map (\<lambda>(n, d). \<lparr>files_id = NewFileID ctx, chunk_n = n, chunk_data = d\<rparr>)
                    (enumerate 0 (chunks_of DefaultChunkSize buf)),
               fs_files := fs_files db @
                  [\<lparr>File_ID = NewFileID ctx, filename = ''Unknown'', fileLength = length buf\<rparr>],
               songs := songs db @
                  [\<lparr>ID = NewObjectID ctx, Name = ''Unknown'', Artist = ''Unknown Artist'',
                    AlbumName = ''Unknown Album'', AudioFileID = NewFileID ctx\<rparr>]\<rparr>)"
    if f: "Fault ctx NewBucket = None" "Fault ctx OpenUploadStream = None"
        "Fault ctx StreamWrite = None" "Fault ctx StreamClose = None"
      and i: "Fault ctx TrackInsertOne = None"
      and fresh: "NewFileID ctx \<notin> set (map File_ID (fs_files db))"
        "NewObjectID ctx \<notin> set (map ID (songs db))"
  proof -
    note u = UploadAudioFile_result [OF f fresh(1), of buf "''Unknown''"]
    show ?thesis
      unfolding up
      using fresh(2) by (simp add: assms(4) d u AddTrack_result [OF i])
  qed
  show ?thesis
    using always stored by blast
qed

theorem uploadTrack_invalid_json_witness:
  "authenticate (\<lambda>token. None) example_request NewRecorder = Inr ''test''
   \<and> ParseForm example_request = None
   \<and> FormFile example_request ''input'' = Some (Inr [1, 2, 3])
   \<and> FormValue_body example_request = SyntaxError (New ''unexpected end of JSON input'')
   \<and> uploadTrack ctx_ok (\<lambda>token. None) example_request example_db =
       (Responded \<lparr>status = Some StatusBadRequest,
                   written = [ErrorObject ''unexpected end of JSON input'',
                              Message ''Track added successfully'']\<rparr>,
        example_db
          \<lparr>fs_chunks := [\<lparr>files_id = 5, chunk_n = 0, chunk_data = [1, 2]\<rparr>,
                          \<lparr>files_id = 8, chunk_n = 0, chunk_data = [1, 2, 3]\<rparr>],
           fs_files := [\<lparr>File_ID = 5, filename = ''Song'', fileLength = 2\<rparr>,
                         \<lparr>File_ID = 8, filename = ''Unknown'', fileLength = 3\<rparr>],
           songs := [song4,
                     \<lparr>ID = 7, Name = ''Unknown'', Artist = ''Unknown Artist'',
                       AlbumName = ''Unknown Album'', AudioFileID = 8\<rparr>]\<rparr>)"
proof -
  have r: "ParseForm example_request = None"
    "FormFile example_request ''input'' = Some (Inr [1, 2, 3])"
    "FormValue_body example_request = SyntaxError (New ''unexpected end of JSON input'')"
    by (simp_all add: example_request_def)
  have f: "Fault ctx_ok NewBucket = None" "Fault ctx_ok OpenUploadStream = None"
    "Fault ctx_ok StreamWrite = None" "Fault ctx_ok StreamClose = None"
    "Fault ctx_ok TrackInsertOne = None"
    "NewFileID ctx_ok \<notin> set (map File_ID (fs_files example_db))"
    "NewObjectID ctx_ok \<notin> set (map ID (songs example_db))"
    by (simp_all add: example_defs)
  have w: "respondWithSuccess
             (respondWithError NewRecorder StatusBadRequest
                ''unexpected end of JSON input'') StatusOK
             (Some (Message ''Track added successfully''))
        = \<lparr>status = Some StatusBadRequest,
           written = [ErrorObject ''unexpected end of JSON input'',
                      Message ''Track added successfully'']\<rparr>"
    by (simp add: respondWithSuccess_def respondWithError_def WriteHeader_def Write_def
        NewRecorder_def)
  from uploadTrack_invalid_json [OF auth_example r, of ctx_ok example_db] f
  have "uploadTrack ctx_ok (\<lambda>token. None) example_request example_db =
          (Responded (respondWithSuccess
             (respondWithError NewRecorder StatusBadRequest
                (Error (New ''unexpected end of JSON input''))) StatusOK
             (Some (Message ''Track added successfully''))),
           example_db\<lparr>fs_chunks := fs_chunks example_db @
                  map (\<lambda>(n, d). \<lparr>files_id = NewFileID ctx_ok, chunk_n = n, chunk_data = d\<rparr>)
                    (enumerate 0 (chunks_of DefaultChunkSize [1, 2, 3])),
               fs_files := fs_files example_db @
                  [\<lparr>File_ID = NewFileID ctx_ok, filename = ''Unknown'',
                    fileLength = length [1, 2, 3 :: 8 word]\<rparr>],
               songs := songs example_db @
                  [\<lparr>ID = NewObjectID ctx_ok, Name = ''Unknown'', Artist = ''Unknown Artist'',
                    AlbumName = ''Unknown Album'', AudioFileID = NewFileID ctx_ok\<rparr>]\<rparr>)"
    by blast
  then have "uploadTrack ctx_ok (\<lambda>token. None) example_request example_db =
       (Responded \<lparr>status = Some StatusBadRequest,
                   written = [ErrorObject ''unexpected end of JSON input'',
                              Message ''Track added successfully'']\<rparr>,
        example_db
          \<lparr>fs_chunks := [\<lparr>files_id = 5, chunk_n = 0, chunk_data = [1, 2]\<rparr>,
                          \<lparr>files_id = 8, chunk_n = 0, chunk_data = [1, 2, 3]\<rparr>],
           fs_files := [\<lparr>File_ID = 5, filename = ''Song'', fileLength = 2\<rparr>,
                         \<lparr>File_ID = 8, filename = ''Unknown'', fileLength = 3\<rparr>],
           songs := [song4,
                     \<lparr>ID = 7, Name = ''Unknown'', Artist = ''Unknown Artist'',
                       AlbumName = ''Unknown Album'', AudioFileID = 8\<rparr>]\<rparr>)"
    by (simp add: w chunks_example ctx_ok_def example_db_def)
  with auth_example r show ?thesis by (intro conjI)
qed

end
